theory Spec2Isabelle
  imports Complex_Main
begin

section \<open>Conventions of the embedding\<close>

text \<open>
  The engine is Python. Its floats are modelled by \<^typ>\<open>real\<close>: every statement below is
  about exact arithmetic. Rounding is outside the model but for \<open>np.polyfit\<close>, whose slope is
  compared with a threshold: there the rounding error is an input. Where IEEE arithmetic
  would leave the reals (an infinity or a nan that is returned, not raised) the model returns
  \<open>NonFinite\<close> instead of HOL's \<open>x / 0 = 0\<close>. Every exception of the source is a value of the
  type \<open>error\<close>, named by its class and carrying what \<open>str(e)\<close> gives; a function that can
  raise returns \<open>error + 'a\<close>, with \<open>Inl\<close> the exception. A \<open>datetime\<close> is an integer number
  of microseconds since the epoch. Python names that start with an underscore lose it
  (\<open>_calculate_feasibility\<close> is \<open>calculate_feasibility\<close>). Timestamps, version tags and file
  names of the result dictionaries carry no property and are left out.
\<close>

datatype error =
    ValueError string
  | KeyError string
  | AttributeError string
  | IndexError string
  | TypeError string
  | ZeroDivisionError string
  | LinAlgError string
  | CollaboratorError string
  | NonFinite

text \<open>A text between single quotes, as Python prints the key of a \<open>KeyError\<close>.\<close>

definition quoted :: "string \<Rightarrow> string" where
  "quoted s = CHR 0x27 # s @ [CHR 0x27]"

text \<open>
  \<open>str(e)\<close>, the message the handlers log and store. A \<open>KeyError\<close> carries its key and
  prints it quoted; every other exception carries its message. \<open>NonFinite\<close> is never raised,
  so no handler sees it.
\<close>

fun str_of_error :: "error \<Rightarrow> string" where
  "str_of_error (ValueError m) = m"
| "str_of_error (KeyError k) = quoted k"
| "str_of_error (AttributeError m) = m"
| "str_of_error (IndexError m) = m"
| "str_of_error (TypeError m) = m"
| "str_of_error (ZeroDivisionError m) = m"
| "str_of_error (LinAlgError m) = m"
| "str_of_error (CollaboratorError m) = m"
| "str_of_error NonFinite = ''nan''"

text \<open>Sequencing of two steps of which the first may raise.\<close>

definition and_then :: "error + 'a \<Rightarrow> ('a \<Rightarrow> error + 'b) \<Rightarrow> error + 'b" where
  "and_then m f = (case m of Inl e \<Rightarrow> Inl e | Inr x \<Rightarrow> f x)"

text \<open>\<open>d[k]\<close> and \<open>d.get(k, default)\<close> on a dictionary with string keys.\<close>

definition getitem :: "(string \<rightharpoonup> 'v) \<Rightarrow> string \<Rightarrow> error + 'v" where
  "getitem d k = (case d k of None \<Rightarrow> Inl (KeyError k) | Some v \<Rightarrow> Inr v)"

definition dict_get :: "(string \<rightharpoonup> 'v) \<Rightarrow> string \<Rightarrow> 'v \<Rightarrow> 'v" where
  "dict_get d k dflt = (case d k of None \<Rightarrow> dflt | Some v \<Rightarrow> v)"

text \<open>\<open>(a - b).days\<close> of two datetimes: a timedelta is normalised, so the days are the floor.\<close>

definition timedelta_days :: "int \<Rightarrow> int \<Rightarrow> int" where
  "timedelta_days a b = (a - b) div 86400000000"

text \<open>\<open>np.mean\<close>, \<open>np.std\<close> (population standard deviation) and \<open>np.average\<close> with weights.\<close>

definition np_mean :: "real list \<Rightarrow> error + real" where
  "np_mean xs = (if xs = [] then Inl NonFinite else Inr (sum_list xs / real (length xs)))"

definition np_std :: "real list \<Rightarrow> error + real" where
  "np_std xs =
     (if xs = [] then Inl NonFinite
      else let m = sum_list xs / real (length xs)
           in Inr (sqrt (sum_list (map (\<lambda>x. (x - m)\<^sup>2) xs) / real (length xs))))"

definition np_average :: "real list \<Rightarrow> real list \<Rightarrow> error + real" where
  "np_average xs ws =
     (if sum_list ws = 0 then
        Inl (ZeroDivisionError (''Weights sum to zero, can'' @ [CHR 0x27] @ ''t be normalized''))
      else Inr (sum_list (map (\<lambda>(x, w). x * w) (zip xs ws)) / sum_list ws))"

section \<open>Carbon capture predictor (models/carbon_predictor.py)\<close>

record project_data =
  project_id :: string
  name :: string
  location :: "string \<rightharpoonup> real"
  project_type :: string
  area_hectares :: real
  start_date :: int
  description :: "string option"

text \<open>
  The fitted regressor is an external library object. The model keeps what the predictor
  reads of it: \<open>predict\<close> on one scaled row, the members of the ensemble when the object has
  the attribute \<open>estimators_\<close>, and \<open>feature_importances_\<close> when it has that attribute.
\<close>

record regressor =
  predict :: "real list \<Rightarrow> real"
  estimators :: "(real list \<Rightarrow> real) list option"
  feature_importances :: "real list option"

text \<open>\<open>StandardScaler\<close>: the fitted per-feature mean and scale.\<close>

record standard_scaler =
  scaler_mean :: "real list"
  scaler_scale :: "real list"

definition transform :: "standard_scaler option \<Rightarrow> real list \<Rightarrow> error + real list" where
  "transform sc xs =
     (case sc of
        None \<Rightarrow> Inl (CollaboratorError ''This StandardScaler instance is not fitted yet.'')
      | Some s \<Rightarrow>
          Inr (map (\<lambda>(x, m, c). (x - m) / c) (zip xs (zip (scaler_mean s) (scaler_scale s)))))"

text \<open>
  Both engines keep a model handle and the flag \<open>is_model_loaded\<close>; the two classes of the
  source share these attribute names, so the model has one record for them, extended by each
  class. An unfitted \<open>StandardScaler\<close> is \<open>None\<close>.
\<close>

record 'm model_holder =
  model :: "'m option"
  is_model_loaded :: bool

record carbon_predictor = "regressor model_holder" +
  scaler :: "standard_scaler option"

definition is_loaded :: "('m, 'z) model_holder_scheme \<Rightarrow> bool" where
  "is_loaded self = (is_model_loaded self \<and> model self \<noteq> None)"

definition feature_columns :: "string list" where
  "feature_columns =
     [''area_hectares'', ''vegetation_coverage'', ''temperature_avg'', ''precipitation_mm'',
      ''soil_quality_index'', ''elevation_m'', ''slope_degrees'', ''biodiversity_index'',
      ''human_activity_index'', ''project_age_months'']"

text \<open>
  \<open>_extract_project_features\<close>. The environmental lookup \<open>env\<close> and the clock \<open>now\<close> are
  inputs of the model: the source draws the first at random and reads the second.
\<close>

definition extract_project_features ::
    "project_data \<Rightarrow> (string \<rightharpoonup> real) \<Rightarrow> int \<Rightarrow> (string \<rightharpoonup> real)" where
  "extract_project_features p env now =
     (let project_age = real_of_int (timedelta_days now (start_date p)) / 30.44
      in [''area_hectares'' \<mapsto> area_hectares p,
          ''vegetation_coverage'' \<mapsto> 75.0,
          ''temperature_avg'' \<mapsto> dict_get env ''temperature'' 20.0,
          ''precipitation_mm'' \<mapsto> dict_get env ''precipitation'' 800.0,
          ''soil_quality_index'' \<mapsto> dict_get env ''soil_quality'' 0.7,
          ''elevation_m'' \<mapsto> dict_get env ''elevation'' 500.0,
          ''slope_degrees'' \<mapsto> dict_get env ''slope'' 10.0,
          ''biodiversity_index'' \<mapsto> dict_get env ''biodiversity'' 0.6,
          ''human_activity_index'' \<mapsto> dict_get env ''human_activity'' 0.3,
          ''project_age_months'' \<mapsto> project_age])"

text \<open>\<open>_estimate_prediction_uncertainty\<close>.\<close>

definition estimate_prediction_uncertainty :: "regressor \<Rightarrow> real list \<Rightarrow> error + real" where
  "estimate_prediction_uncertainty m features =
     (case estimators m of
        Some trees \<Rightarrow> np_std (map (\<lambda>estimator. estimator features) trees)
      | None \<Rightarrow> Inr (0.1 * \<bar>predict m features\<bar>))"

text \<open>
  \<open>_calculate_feasibility\<close>. The five factors are built in the order of the dictionary
  literal. The prediction is a numpy float, so \<open>prediction / (area * 5)\<close> with a zero
  divisor raises nothing: for a positive prediction it is the infinity, of which
  \<open>min(inf, 1.0)\<close> is 1.0; otherwise it is the negative infinity or a nan, and so is the score.
\<close>

definition feasibility_factors :: "(string \<rightharpoonup> real) \<Rightarrow> real \<Rightarrow> error + real list" where
  "feasibility_factors features prediction =
     and_then (getitem features ''vegetation_coverage'') (\<lambda>vc.
     and_then (getitem features ''soil_quality_index'') (\<lambda>sq.
     and_then (getitem features ''precipitation_mm'') (\<lambda>pr.
     and_then (getitem features ''area_hectares'') (\<lambda>ar.
     and_then (if ar * 5 = 0 then (if 0 < prediction then Inr 1.0 else Inl NonFinite)
               else Inr (min (prediction / (ar * 5)) 1.0)) (\<lambda>prediction_reasonableness.
       Inr [min (vc / 80.0) 1.0,
            sq,
            min (pr / 1000.0) 1.0,
            min (ar / 100.0) 1.0,
            prediction_reasonableness])))))"

definition feasibility_weights :: "real list" where
  "feasibility_weights = [0.25, 0.20, 0.20, 0.15, 0.20]"

definition calculate_feasibility :: "(string \<rightharpoonup> real) \<Rightarrow> real \<Rightarrow> error + real" where
  "calculate_feasibility features prediction =
     and_then (feasibility_factors features prediction) (\<lambda>factors.
     and_then (np_average factors feasibility_weights) (\<lambda>feasibility.
       Inr (min feasibility 1.0)))"

text \<open>\<open>_get_feature_importance\<close>: the importances by feature, largest first (a stable sort).\<close>

definition get_feature_importance :: "regressor \<Rightarrow> (string \<times> real) list" where
  "get_feature_importance m =
     (case feature_importances m of
        Some importances \<Rightarrow> sort_key (\<lambda>x. - snd x) (zip feature_columns importances)
      | None \<Rightarrow> [])"

text \<open>\<open>_generate_recommendation\<close>.\<close>

definition generate_recommendation :: "real \<Rightarrow> real \<Rightarrow> string" where
  "generate_recommendation prediction feasibility =
     (if feasibility > 0.8 \<and> prediction > 100 then
        ''Excellent project with high CO2 capture potential. Highly recommended for investment.''
      else if feasibility > 0.6 \<and> prediction > 50 then
        ''Good project with moderate CO2 capture potential. Recommended for investment with monitoring.''
      else if feasibility > 0.4 \<and> prediction > 20 then
        ''Average project with limited CO2 capture potential. Consider additional improvements.''
      else ''Poor project feasibility. Not recommended for carbon credit investment.'')"

record confidence_interval =
  lower :: real
  upper :: real

record co2_estimate =
  annual_co2_tonnes :: real
  confidence_interval :: confidence_interval
  feasibility :: real
  key_factors :: "(string \<times> real) list"
  recommendation :: string

text \<open>The row \<open>[features[col] for col in self.feature_columns]\<close>.\<close>

fun feature_array :: "(string \<rightharpoonup> real) \<Rightarrow> string list \<Rightarrow> error + real list" where
  "feature_array features [] = Inr []"
| "feature_array features (col # cols) =
     and_then (getitem features col) (\<lambda>v.
     and_then (feature_array features cols) (\<lambda>vs. Inr (v # vs)))"

text \<open>
  \<open>estimate_co2_capture\<close>. The handler of the source logs and re-raises, so an error leaves
  the function as it arose.
\<close>

definition estimate_co2_capture ::
    "carbon_predictor \<Rightarrow> project_data \<Rightarrow> (string \<rightharpoonup> real) \<Rightarrow> int \<Rightarrow> error + co2_estimate" where
  "estimate_co2_capture self p env now =
     (if \<not> is_model_loaded self then Inl (ValueError ''Carbon predictor model not loaded'')
      else
        let features = extract_project_features p env now in
        and_then (feature_array features feature_columns) (\<lambda>row.
        and_then (transform (scaler self) row) (\<lambda>feature_array_scaled.
          case model self of
            None \<Rightarrow>
              Inl (AttributeError
                    (quoted ''NoneType'' @ '' object has no attribute '' @ quoted ''predict''))
          | Some m \<Rightarrow>
              let prediction = predict m feature_array_scaled in
              and_then (estimate_prediction_uncertainty m feature_array_scaled) (\<lambda>prediction_std.
              and_then (calculate_feasibility features prediction) (\<lambda>feasibility_score.
                Inr \<lparr>annual_co2_tonnes = max prediction 0.0,
                     confidence_interval =
                       \<lparr>lower = max (prediction - 1.96 * prediction_std) 0.0,
                        upper = prediction + 1.96 * prediction_std\<rparr>,
                     feasibility = feasibility_score,
                     key_factors = get_feature_importance m,
                     recommendation = generate_recommendation prediction feasibility_score\<rparr>)))))"

text \<open>
  \<open>load_model\<close> of the predictor. The outcome of each \<open>joblib.load\<close> and of the training
  fallback \<open>_create_carbon_model\<close> (which fits the scaler and returns the regressor) are
  inputs. An error of the fallback is raised inside the handler and leaves the constructor.
\<close>

datatype 'a loaded = Found 'a | FileNotFound | Broken error

definition create_carbon_model ::
    "carbon_predictor \<Rightarrow> error + regressor \<times> standard_scaler \<Rightarrow> error + carbon_predictor" where
  "create_carbon_model self trained =
     (case trained of
        Inl e \<Rightarrow> Inl e
      | Inr (m, sc) \<Rightarrow> Inr (self\<lparr>model := Some m, scaler := Some sc, is_model_loaded := True\<rparr>))"

definition carbon_load_model ::
    "carbon_predictor \<Rightarrow> regressor loaded \<Rightarrow> standard_scaler loaded \<Rightarrow>
     error + regressor \<times> standard_scaler \<Rightarrow> error + carbon_predictor" where
  "carbon_load_model self model_file scaler_file trained =
     (case model_file of
        Found m \<Rightarrow>
          (case scaler_file of
             Found sc \<Rightarrow> Inr (self\<lparr>model := Some m, scaler := Some sc, is_model_loaded := True\<rparr>)
           | FileNotFound \<Rightarrow> create_carbon_model (self\<lparr>model := Some m\<rparr>) trained
           | Broken e \<Rightarrow> Inr (self\<lparr>model := Some m, is_model_loaded := False\<rparr>))
      | FileNotFound \<Rightarrow> create_carbon_model self trained
      | Broken e \<Rightarrow> Inr (self\<lparr>is_model_loaded := False\<rparr>))"

definition new_carbon_predictor :: carbon_predictor where
  "new_carbon_predictor = \<lparr>model = None, is_model_loaded = False, scaler = None\<rparr>"

text \<open>\<open>_calculate_monthly_breakdown\<close>: the loop over \<open>range(months)\<close> appends to \<open>monthly_data\<close>.\<close>

record month_record =
  month :: nat
  co2_capture_tonnes :: real
  seasonal_factor :: real
  cumulative_co2 :: real

definition seasonal_factors :: "real list" where
  "seasonal_factors = [0.6, 0.7, 0.9, 1.2, 1.4, 1.3, 1.2, 1.1, 1.0, 0.8, 0.6, 0.5]"

fun monthly_loop :: "real \<Rightarrow> nat list \<Rightarrow> month_record list \<Rightarrow> month_record list" where
  "monthly_loop annual_co2 [] monthly_data = monthly_data"
| "monthly_loop annual_co2 (m # ms) monthly_data =
     (let factor = seasonal_factors ! (m mod 12);
          monthly_co2 = (annual_co2 / 12) * factor
      in monthly_loop annual_co2 ms
           (monthly_data @
            [\<lparr>month = m + 1,
              co2_capture_tonnes = monthly_co2,
              seasonal_factor = factor,
              cumulative_co2 = sum_list (map co2_capture_tonnes monthly_data) + monthly_co2\<rparr>]))"

definition calculate_monthly_breakdown :: "real \<Rightarrow> int \<Rightarrow> bool \<Rightarrow> month_record list" where
  "calculate_monthly_breakdown annual_co2 timeframe_days include_weather =
     (let months = min (timeframe_days div 30) 12
      in monthly_loop annual_co2 [0..<nat months] [])"

section \<open>Vegetation classification engine (models/satellite_analyzer.py)\<close>

text \<open>
  A numpy array is its shape and its elements in row-major order; an array the library
  builds has \<open>prod_list shape\<close> elements. The element type is not modelled.
\<close>

datatype image_data = Tensor (shape: "nat list") (elements: "real list")

definition tensor_size :: "image_data \<Rightarrow> nat" where
  "tensor_size t = prod_list (shape t)"

fun chunks :: "nat \<Rightarrow> 'a list \<Rightarrow> 'a list list" where
  "chunks n xs = (if n = 0 \<or> xs = [] then [] else take n xs # chunks n (drop n xs))"

text \<open>The slice \<open>a[:, :, k]\<close>: an \<open>IndexError\<close> under three axes or when the third is too short.\<close>

definition channel :: "image_data \<Rightarrow> nat \<Rightarrow> error + image_data" where
  "channel t k =
     (case shape t of
        h # w # c # rest \<Rightarrow>
          if k < c then
            let inner = prod_list rest
            in Inr (Tensor (h # w # rest)
                 (concat (map (\<lambda>g. take inner (drop (k * inner) g))
                            (chunks (c * inner) (elements t)))))
          else Inl (IndexError ''index out of bounds for axis 2'')
      | _ \<Rightarrow> Inl (IndexError ''too many indices for array''))"

text \<open>
  \<open>cv2.cvtColor(image, cv2.COLOR_BGR2RGB)\<close>: defined on a non-empty image of three or four
  channels, whose first and third channel it swaps (a fourth is dropped); an error otherwise.
\<close>

definition cvtColor_BGR2RGB :: "image_data \<Rightarrow> error + image_data" where
  "cvtColor_BGR2RGB t =
     (case shape t of
        [h, w, c] \<Rightarrow>
          if (c = 3 \<or> c = 4) \<and> 0 < h * w then
            Inr (Tensor [h, w, 3]
                 (concat (map (\<lambda>px. [px ! 2, px ! 1, px ! 0])
                            (filter (\<lambda>px. length px = c) (chunks c (elements t))))))
          else Inl (CollaboratorError ''cv2.error'')
      | _ \<Rightarrow> Inl (CollaboratorError ''cv2.error''))"

text \<open>
  One element of \<open>ndvi > 0.2\<close>. With a zero denominator numpy yields an infinity or a nan,
  and only the positive infinity exceeds the threshold.
\<close>

definition ndvi_above :: "real \<Rightarrow> real \<Rightarrow> bool" where
  "ndvi_above green red =
     (let denominator = green + red + 1 / 10 ^ 8
      in if denominator = 0 then 0 < green - red
         else (green - red) / denominator > 0.2)"

text \<open>
  \<open>_calculate_vegetation_coverage\<close>. Every exception inside the \<open>try\<close> gives \<open>0.0\<close>.
  The quotient of two zero counts is a nan, which is no exception and is returned.
\<close>

definition coverage_body :: "image_data \<Rightarrow> error + real" where
  "coverage_body img =
     and_then (if length (shape img) = 3 \<and> shape img ! 2 = 3 then Inr img
               else cvtColor_BGR2RGB img) (\<lambda>rgb_image.
     and_then (channel rgb_image 1) (\<lambda>green_channel.
     and_then (channel rgb_image 0) (\<lambda>red_channel.
       let vegetation_pixels =
             length (filter (\<lambda>(g, r). ndvi_above g r)
                       (zip (elements green_channel) (elements red_channel)));
           total_pixels = tensor_size green_channel
       in if total_pixels = 0 then Inl NonFinite
          else Inr (min ((real vegetation_pixels / real total_pixels) * 100) 100.0))))"

definition calculate_vegetation_coverage :: "image_data \<Rightarrow> error + real" where
  "calculate_vegetation_coverage img =
     (case coverage_body img of
        Inr coverage_percent \<Rightarrow> Inr coverage_percent
      | Inl e \<Rightarrow> if e = NonFinite then Inl NonFinite else Inr 0.0)"

text \<open>
  \<open>preprocess_image\<close>. \<open>cv2.resize\<close> to 224 by 224 is a collaborator, passed as \<open>resize\<close>;
  the result is scaled to [0, 1] and gets a leading batch axis.
\<close>

definition preprocess_image ::
    "(image_data \<Rightarrow> error + image_data) \<Rightarrow> image_data \<Rightarrow> error + image_data" where
  "preprocess_image resize img =
     and_then (resize img) (\<lambda>resized.
       Inr (Tensor (1 # shape resized) (map (\<lambda>x. x / 255.0) (elements resized))))"

record change_detection =
  change_detected :: bool
  change_type :: string
  change_confidence :: real
  change_area_percent :: real

definition detect_changes :: "image_data \<Rightarrow> change_detection" where
  "detect_changes current_image =
     \<lparr>change_detected = False, change_type = ''no_change'',
      change_confidence = 0.0, change_area_percent = 0.0\<rparr>"

text \<open>
  The result dictionaries of the single image, of the dated image of a time series and of
  the project area share the keys \<open>vegetation_detected\<close>, \<open>confidence\<close> and
  \<open>vegetation_coverage_percent\<close>: one record, extended by each. A dictionary that is
  iterated (\<open>class_probabilities\<close>) is an association list in insertion order.
\<close>

record analysis =
  vegetation_detected :: bool
  confidence :: real
  vegetation_coverage_percent :: real

record classification_result = analysis +
  predicted_class :: string
  class_probabilities :: "(string \<times> real) list"
  change_detection :: change_detection

record temporal_result = classification_result +
  date :: int

definition vegetation_classes :: "string list" where
  "vegetation_classes =
     [''no_vegetation'', ''sparse_vegetation'', ''moderate_vegetation'', ''dense_vegetation'',
      ''forest'', ''deforestation'', ''reforestation'']"

text \<open>\<open>np.argmax\<close>: the first index of the largest element.\<close>

fun argmax_loop :: "real list \<Rightarrow> nat \<Rightarrow> nat \<Rightarrow> real \<Rightarrow> nat" where
  "argmax_loop [] i best best_value = best"
| "argmax_loop (x # xs) i best best_value =
     (if best_value < x then argmax_loop xs (i + 1) i x
      else argmax_loop xs (i + 1) best best_value)"

definition np_argmax :: "real list \<Rightarrow> error + nat" where
  "np_argmax xs =
     (case xs of
        [] \<Rightarrow> Inl (ValueError ''attempt to get argmax of an empty sequence'')
      | x # rest \<Rightarrow> Inr (argmax_loop rest 1 0 x))"

text \<open>
  The classifier is \<open>self.model.predict(batch, verbose=0)[0]\<close>: the scores of the one image
  of the batch, or the exception of the library.
\<close>

type_synonym classifier = "image_data \<Rightarrow> error + real list"

type_synonym satellite_analyzer = "classifier model_holder"

text \<open>\<open>analyze_single_image\<close>.\<close>

definition analyze_single_image ::
    "satellite_analyzer \<Rightarrow> (image_data \<Rightarrow> error + image_data) \<Rightarrow> image_data \<Rightarrow>
     error + classification_result" where
  "analyze_single_image self resize img =
     (if \<not> is_model_loaded self then Inl (ValueError ''CNN model not loaded'')
      else
        and_then (preprocess_image resize img) (\<lambda>processed_image.
          case model self of
            None \<Rightarrow>
              Inl (AttributeError
                    (quoted ''NoneType'' @ '' object has no attribute '' @ quoted ''predict''))
          | Some m \<Rightarrow>
              and_then (m processed_image) (\<lambda>confidence_scores.
              and_then (np_argmax confidence_scores) (\<lambda>predicted_class_idx.
                if length vegetation_classes \<le> predicted_class_idx
                then Inl (IndexError ''list index out of range'')
                else
                  let max_confidence = confidence_scores ! predicted_class_idx in
                  and_then (calculate_vegetation_coverage img) (\<lambda>coverage.
                    Inr \<lparr>vegetation_detected = max_confidence > 0.7,
                         confidence = max_confidence,
                         vegetation_coverage_percent = coverage,
                         predicted_class = vegetation_classes ! predicted_class_idx,
                         class_probabilities = zip vegetation_classes confidence_scores,
                         change_detection = detect_changes img\<rparr>)))))"

text \<open>
  \<open>load_model\<close> of the analyzer: the outcome of loading or building the network is an input;
  any exception leaves the flag false.
\<close>

definition satellite_load_model :: "satellite_analyzer \<Rightarrow> error + classifier \<Rightarrow> satellite_analyzer" where
  "satellite_load_model self outcome =
     (case outcome of
        Inr m \<Rightarrow> self\<lparr>model := Some m, is_model_loaded := True\<rparr>
      | Inl e \<Rightarrow> self\<lparr>is_model_loaded := False\<rparr>)"

definition new_satellite_analyzer :: satellite_analyzer where
  "new_satellite_analyzer = \<lparr>model = None, is_model_loaded = False\<rparr>"

text \<open>
  \<open>_calculate_co2_potential\<close>: the two nested loops add to \<open>total_co2_potential\<close> and
  \<open>total_confidence\<close>.
\<close>

definition conversion_factors :: "string \<rightharpoonup> real" where
  "conversion_factors =
     [''forest'' \<mapsto> 10.0,
      ''dense_vegetation'' \<mapsto> 6.0,
      ''moderate_vegetation'' \<mapsto> 3.0,
      ''sparse_vegetation'' \<mapsto> 1.0,
      ''no_vegetation'' \<mapsto> 0.0,
      ''reforestation'' \<mapsto> 8.0,
      ''deforestation'' \<mapsto> - 5.0]"

fun class_loop :: "(string \<times> real) list \<Rightarrow> real \<times> real \<Rightarrow> real \<times> real" where
  "class_loop [] totals = totals"
| "class_loop ((vegetation_class, probability) # rest) (total_co2_potential, total_confidence) =
     (case conversion_factors vegetation_class of
        Some co2_factor \<Rightarrow>
          class_loop rest
            (total_co2_potential + co2_factor * probability, total_confidence + probability)
      | None \<Rightarrow> class_loop rest (total_co2_potential, total_confidence))"

fun result_loop ::
    "('z classification_result_scheme) list \<Rightarrow> real \<times> real \<Rightarrow> real \<times> real" where
  "result_loop [] totals = totals"
| "result_loop (result # rest) totals =
     result_loop rest (class_loop (class_probabilities result) totals)"

definition calculate_co2_potential ::
    "real \<Rightarrow> real \<Rightarrow> ('z classification_result_scheme) list \<Rightarrow> real" where
  "calculate_co2_potential area vegetation_coverage analysis_results =
     (case result_loop analysis_results (0.0, 0.0) of
        (total_co2_potential, total_confidence) \<Rightarrow>
          let weighted_co2_factor =
                (if total_confidence > 0 then total_co2_potential / total_confidence else 0.0);
              vegetation_factor = vegetation_coverage / 100.0;
              annual_co2_potential = area * weighted_co2_factor * vegetation_factor
          in max annual_co2_potential 0.0)"

text \<open>
  \<open>analyze_project_area\<close>. The images of \<open>_fetch_satellite_images\<close> are an input. The first
  image whose analysis raises ends the loop.
\<close>

record area_result = analysis +
  co2_sequestration_potential_tonnes_year :: real
  images_analyzed :: nat
  detailed_analysis :: "classification_result list"

fun analyze_all ::
    "satellite_analyzer \<Rightarrow> (image_data \<Rightarrow> error + image_data) \<Rightarrow> image_data list \<Rightarrow>
     classification_result list \<Rightarrow> error + classification_result list" where
  "analyze_all self resize [] analysis_results = Inr analysis_results"
| "analyze_all self resize (img # rest) analysis_results =
     and_then (analyze_single_image self resize img) (\<lambda>result.
       analyze_all self resize rest (analysis_results @ [result]))"

definition analyze_project_area ::
    "satellite_analyzer \<Rightarrow> (image_data \<Rightarrow> error + image_data) \<Rightarrow> image_data list \<Rightarrow> real \<Rightarrow>
     error + area_result" where
  "analyze_project_area self resize images area =
     (if images = [] then
        Inl (ValueError ''No satellite images available for the specified area'')
      else
        and_then (analyze_all self resize images []) (\<lambda>analysis_results.
        and_then (np_mean (map confidence analysis_results)) (\<lambda>avg_confidence.
        and_then (np_mean (map vegetation_coverage_percent analysis_results))
          (\<lambda>avg_vegetation_coverage.
            Inr \<lparr>vegetation_detected = avg_confidence > 0.8 \<and> avg_vegetation_coverage > 60,
                 confidence = avg_confidence,
                 vegetation_coverage_percent = avg_vegetation_coverage,
                 co2_sequestration_potential_tonnes_year =
                   calculate_co2_potential area avg_vegetation_coverage analysis_results,
                 images_analyzed = length images,
                 detailed_analysis = analysis_results\<rparr>))))"

text \<open>
  \<open>batch_analyze\<close>. An exception of one image becomes an error entry and the loop goes on.
  A nan is no exception, so \<open>NonFinite\<close> is not caught.
\<close>

datatype batch_entry =
    Analyzed classification_result
  | ErrorEntry (entry_error: string) (entry_vegetation_detected: bool) (entry_confidence: real)

fun batch_loop ::
    "satellite_analyzer \<Rightarrow> (image_data \<Rightarrow> error + image_data) \<Rightarrow> image_data list \<Rightarrow>
     batch_entry list \<Rightarrow> error + batch_entry list" where
  "batch_loop self resize [] results = Inr results"
| "batch_loop self resize (img # rest) results =
     (case analyze_single_image self resize img of
        Inr result \<Rightarrow> batch_loop self resize rest (results @ [Analyzed result])
      | Inl e \<Rightarrow>
          if e = NonFinite then Inl NonFinite
          else batch_loop self resize rest (results @ [ErrorEntry (str_of_error e) False 0.0]))"

definition batch_analyze ::
    "satellite_analyzer \<Rightarrow> (image_data \<Rightarrow> error + image_data) \<Rightarrow> image_data list \<Rightarrow>
     error + batch_entry list" where
  "batch_analyze self resize images =
     (if \<not> is_model_loaded self then Inl (ValueError ''CNN model not loaded'')
      else batch_loop self resize images [])"

text \<open>
  \<open>np.polyfit(x, y, 1)\<close>, returning the slope and the intercept. The library is not part of
  the repository. It solves the least-squares problem in 64-bit floats: what it returns is
  the solution of the normal equations up to a rounding error, and that error, \<open>rounding\<close>,
  is an input of the model (its two components are added to the exact slope and intercept).
  Where the equations have no unique solution (all abscissae equal) it raises
  \<open>LinAlgError\<close>.
\<close>

definition polyfit1 :: "real \<times> real \<Rightarrow> real list \<Rightarrow> real list \<Rightarrow> error + real \<times> real" where
  "polyfit1 rounding xs ys =
     (let n = real (length xs);
          sx = sum_list xs;
          sy = sum_list ys;
          sxx = sum_list (map (\<lambda>x. x * x) xs);
          sxy = sum_list (map (\<lambda>(x, y). x * y) (zip xs ys));
          d = n * sxx - sx * sx
      in if length xs \<noteq> length ys then
           Inl (TypeError ''expected x and y to have same length'')
         else if d = 0 then
           Inl (LinAlgError ''SVD did not converge in Linear Least Squares'')
         else Inr ((n * sxy - sx * sy) / d + fst rounding,
                   (sy * sxx - sx * sxy) / d + snd rounding))"

text \<open>
  \<open>_calculate_vegetation_trend\<close>. A key that the short result lacks is \<open>None\<close>. The rounding
  error of the fit is passed on to \<open>polyfit1\<close>.
\<close>

record trend_result =
  trend :: string
  change_rate :: real
  initial_coverage :: "real option"
  final_coverage :: "real option"
  total_change :: "real option"

definition calculate_vegetation_trend ::
    "real \<times> real \<Rightarrow> temporal_result list \<Rightarrow> error + trend_result" where
  "calculate_vegetation_trend rounding temporal_results =
     (if length temporal_results < 2 then
        Inr \<lparr>trend = ''insufficient_data'', change_rate = 0.0,
             initial_coverage = None, final_coverage = None, total_change = None\<rparr>
      else
        let coverages = map vegetation_coverage_percent temporal_results;
            dates = map date temporal_results;
            x_values = map (\<lambda>d. real_of_int (timedelta_days d (hd dates))) dates
        in and_then (polyfit1 rounding x_values coverages) (\<lambda>(trend_slope, intercept).
             let trend_type =
                   (if trend_slope > 1.0 then ''increasing''
                    else if trend_slope < - 1.0 then ''decreasing''
                    else ''stable'')
             in Inr \<lparr>trend = trend_type, change_rate = trend_slope,
                     initial_coverage = Some (hd coverages),
                     final_coverage = Some (last coverages),
                     total_change = Some (last coverages - hd coverages)\<rparr>))"

section \<open>Verification aggregator (main.py)\<close>

text \<open>
  The legitimacy scorer is an external collaborator; of its result the aggregator reads
  \<open>legitimacy_score\<close>.
\<close>

record fraud_result =
  legitimacy_score :: real

record verification_result =
  verified_project_id :: string
  verification_status :: bool
  confidence_score :: real
  co2_capture_estimate :: real
  fraud_risk_score :: real
  satellite_analysis :: area_result
  fraud_assessment :: fraud_result
  carbon_estimation :: co2_estimate

text \<open>
  What the endpoint raises: the HTTP error with its status code and detail. A result that
  holds a nan is no real record.
\<close>

datatype response_error = HTTPException nat string | NonFiniteResult

text \<open>
  \<open>asyncio.gather\<close> over the three tasks: all three results, or the exception of the first
  task that raised. The mock collaborators never suspend, so the tasks run in list order.
\<close>

definition gather3 :: "error + 'a \<Rightarrow> error + 'b \<Rightarrow> error + 'c \<Rightarrow> error + 'a \<times> 'b \<times> 'c" where
  "gather3 a b c =
     and_then a (\<lambda>x. and_then b (\<lambda>y. and_then c (\<lambda>z. Inr (x, y, z))))"

text \<open>
  \<open>verify_carbon_project\<close>. The two engines are the module's singletons; the images that
  the analyzer fetches, the environmental lookup, the clock and the outcome of the external
  legitimacy scorer are inputs. Any exception becomes the HTTP error 500.
\<close>

definition verify_carbon_project ::
    "satellite_analyzer \<Rightarrow> (image_data \<Rightarrow> error + image_data) \<Rightarrow> image_data list \<Rightarrow>
     error + fraud_result \<Rightarrow> carbon_predictor \<Rightarrow> (string \<rightharpoonup> real) \<Rightarrow> int \<Rightarrow>
     project_data \<Rightarrow> response_error + verification_result" where
  "verify_carbon_project satellite_analyzer resize images fraud_task carbon_predictor env now
       project =
     (case gather3
             (analyze_project_area satellite_analyzer resize images (area_hectares project))
             fraud_task
             (estimate_co2_capture carbon_predictor project env now) of
        Inl e \<Rightarrow>
          if e = NonFinite then Inl NonFiniteResult
          else Inl (HTTPException 500 (''Verification failed: '' @ str_of_error e))
      | Inr (satellite_result, fraud_result, carbon_result) \<Rightarrow>
          Inr \<lparr>verified_project_id = project_id project,
               verification_status =
                 (vegetation_detected satellite_result \<and>
                  legitimacy_score fraud_result > 0.8 \<and>
                  feasibility carbon_result > 0.7),
               confidence_score =
                 min (confidence satellite_result)
                   (min (legitimacy_score fraud_result) (feasibility carbon_result)),
               co2_capture_estimate = annual_co2_tonnes carbon_result,
               fraud_risk_score = 1.0 - legitimacy_score fraud_result,
               satellite_analysis = satellite_result,
               fraud_assessment = fraud_result,
               carbon_estimation = carbon_result\<rparr>)"

section \<open>Reference formulas and sample inputs\<close>

text \<open>
  The weighted average of the five feasibility factors, as the specification words it.
\<close>

definition spec_feasibility :: "real \<Rightarrow> real \<Rightarrow> real \<Rightarrow> real \<Rightarrow> real \<Rightarrow> real" where
  "spec_feasibility vc sq pr ar prediction =
     0.25 * min (vc / 80) 1 + 0.20 * sq + 0.20 * min (pr / 1000) 1 +
     0.15 * min (ar / 100) 1 + 0.20 * min (prediction / (ar * 5)) 1"

text \<open>
  The record of month \<open>k\<close> (counted from 0), as the specification words it: its own tonnes,
  the seasonal factor used, and the running total.
\<close>

definition spec_month_record :: "real \<Rightarrow> nat \<Rightarrow> month_record" where
  "spec_month_record annual_co2 k =
     \<lparr>month = k + 1,
      co2_capture_tonnes = annual_co2 / 12 * seasonal_factors ! (k mod 12),
      seasonal_factor = seasonal_factors ! (k mod 12),
      cumulative_co2 =
        sum_list (map (\<lambda>j. annual_co2 / 12 * seasonal_factors ! (j mod 12)) [0..<k + 1])\<rparr>"

text \<open>A project of 100 hectares, and the environmental lookup at its default values.\<close>

definition sample_project :: project_data where
  "sample_project =
     \<lparr>project_id = ''P-1'', name = ''Sample reforestation'',
      location = [''lat'' \<mapsto> 45.0, ''lng'' \<mapsto> 25.0],
      project_type = ''reforestation'', area_hectares = 100, start_date = 0,
      description = None\<rparr>"

definition sample_environment :: "string \<rightharpoonup> real" where
  "sample_environment =
     [''temperature'' \<mapsto> 20, ''precipitation'' \<mapsto> 800, ''soil_quality'' \<mapsto> 0.7,
      ''elevation'' \<mapsto> 500, ''slope'' \<mapsto> 10, ''biodiversity'' \<mapsto> 0.6,
      ''human_activity'' \<mapsto> 0.3]"

definition sample_features :: "string \<rightharpoonup> real" where
  "sample_features = extract_project_features sample_project sample_environment 0"

text \<open>The same mapping over one hectare.\<close>

definition small_area_features :: "string \<rightharpoonup> real" where
  "small_area_features = sample_features(''area_hectares'' \<mapsto> 1)"

text \<open>
  A fitted scaler that leaves a row as it is, and two forests of two trees each: one
  predicts 250 tonnes for every row (its trees 240 and 260), the other -10 tonnes (its
  trees -11 and -9). A forest predicts the mean of its trees.
\<close>

definition identity_scaler :: standard_scaler where
  "identity_scaler = \<lparr>scaler_mean = replicate 10 0, scaler_scale = replicate 10 1\<rparr>"

definition sample_forest :: regressor where
  "sample_forest =
     \<lparr>predict = (\<lambda>row. 250), estimators = Some [\<lambda>row. 240, \<lambda>row. 260],
      feature_importances = None\<rparr>"

definition sample_predictor :: carbon_predictor where
  "sample_predictor =
     \<lparr>model = Some sample_forest, is_model_loaded = True, scaler = Some identity_scaler\<rparr>"

definition sample_estimate :: co2_estimate where
  "sample_estimate =
     \<lparr>annual_co2_tonnes = 250,
      confidence_interval = \<lparr>lower = 230.4, upper = 269.6\<rparr>,
      feasibility = 0.784375,
      key_factors = [],
      recommendation =
        ''Good project with moderate CO2 capture potential. Recommended for investment with monitoring.''\<rparr>"

definition negative_forest :: regressor where
  "negative_forest =
     \<lparr>predict = (\<lambda>row. - 10), estimators = Some [\<lambda>row. - 11, \<lambda>row. - 9],
      feature_importances = None\<rparr>"

definition negative_predictor :: carbon_predictor where
  "negative_predictor =
     \<lparr>model = Some negative_forest, is_model_loaded = True, scaler = Some identity_scaler\<rparr>"

definition negative_estimate :: co2_estimate where
  "negative_estimate =
     \<lparr>annual_co2_tonnes = 0,
      confidence_interval = \<lparr>lower = 0, upper = - 8.04\<rparr>,
      feasibility = 0.680375,
      key_factors = [],
      recommendation =
        ''Poor project feasibility. Not recommended for carbon credit investment.''\<rparr>"

text \<open>
  The conversion table as the specification lists it (tonnes of CO2 per hectare and year),
  and the two sums of the CO2 potential as the specification words them: the conversion
  factor times the probability, and the probability, over every image and every class that
  the table holds.
\<close>

definition spec_conversion_factor :: "string \<Rightarrow> real option" where
  "spec_conversion_factor c =
     (if c = ''forest'' then Some 10
      else if c = ''dense_vegetation'' then Some 6
      else if c = ''moderate_vegetation'' then Some 3
      else if c = ''sparse_vegetation'' then Some 1
      else if c = ''no_vegetation'' then Some 0
      else if c = ''reforestation'' then Some 8
      else if c = ''deforestation'' then Some (- 5)
      else None)"

definition spec_weighted_sum :: "('z classification_result_scheme) list \<Rightarrow> real" where
  "spec_weighted_sum results =
     sum_list (map (\<lambda>(c, p). case spec_conversion_factor c of Some f \<Rightarrow> f * p | None \<Rightarrow> 0)
                 (concat (map class_probabilities results)))"

definition spec_probability_mass :: "('z classification_result_scheme) list \<Rightarrow> real" where
  "spec_probability_mass results =
     sum_list (map (\<lambda>(c, p). case spec_conversion_factor c of Some f \<Rightarrow> p | None \<Rightarrow> 0)
                 (concat (map class_probabilities results)))"

text \<open>
  The coverage as the specification words it, over the pixels of an image as triples of
  red, green and blue: the share of the pixels whose index
  \<open>(green - red) / (green + red + epsilon)\<close> exceeds 0.2, as a percentage capped at 100
  (\<open>epsilon\<close> is 1e-8). \<open>rgb_tensor\<close> is the array of \<open>h\<close> rows and \<open>w\<close> columns
  that holds these pixels.
\<close>

definition spec_vegetation_index :: "real \<Rightarrow> real \<Rightarrow> real" where
  "spec_vegetation_index green red = (green - red) / (green + red + 1 / 10 ^ 8)"

definition spec_coverage :: "(real \<times> real \<times> real) list \<Rightarrow> real" where
  "spec_coverage pixels =
     min (real (length (filter (\<lambda>(red, green, blue). spec_vegetation_index green red > 0.2)
                          pixels)) /
          real (length pixels) * 100) 100"

definition rgb_tensor :: "nat \<Rightarrow> nat \<Rightarrow> (real \<times> real \<times> real) list \<Rightarrow> image_data" where
  "rgb_tensor h w pixels =
     Tensor [h, w, 3] (concat (map (\<lambda>(red, green, blue). [red, green, blue]) pixels))"

text \<open>
  A classifier that sees forest with probability 1, a resize that rejects an empty image
  as \<open>cv2.resize\<close> does, an image of one green pixel and an image without pixels.
\<close>

definition forest_classifier :: classifier where
  "forest_classifier batch = Inr [0, 0, 0, 0, 1, 0, 0]"

definition sample_resize :: "image_data \<Rightarrow> error + image_data" where
  "sample_resize img =
     (if tensor_size img = 0 then Inl (CollaboratorError ''cv2.error: !ssize.empty()'')
      else Inr img)"

definition sample_analyzer :: satellite_analyzer where
  "sample_analyzer = \<lparr>model = Some forest_classifier, is_model_loaded = True\<rparr>"

definition green_pixel :: image_data where
  "green_pixel = Tensor [1, 1, 3] [0, 255, 0]"

definition empty_image :: image_data where
  "empty_image = Tensor [0, 0, 3] []"

definition forest_result :: classification_result where
  "forest_result =
     \<lparr>vegetation_detected = True, confidence = 1, vegetation_coverage_percent = 100,
      predicted_class = ''forest'',
      class_probabilities = zip vegetation_classes [0, 0, 0, 0, 1, 0, 0],
      change_detection = detect_changes green_pixel\<rparr>"

text \<open>The same result with the probability split between forest and deforestation.\<close>

definition mixed_result :: classification_result where
  "mixed_result =
     forest_result\<lparr>class_probabilities := zip vegetation_classes [0, 0, 0, 0, 0.5, 0.5, 0]\<rparr>"

definition sample_area_result :: area_result where
  "sample_area_result =
     \<lparr>vegetation_detected = True, confidence = 1, vegetation_coverage_percent = 100,
      co2_sequestration_potential_tonnes_year = 100, images_analyzed = 1,
      detailed_analysis = [forest_result]\<rparr>"

text \<open>
  The entry of one image in a batch, as the specification words it: the classification,
  or the error-tagged entry with the message.
\<close>

definition spec_batch_entry ::
    "satellite_analyzer \<Rightarrow> (image_data \<Rightarrow> error + image_data) \<Rightarrow> image_data \<Rightarrow> batch_entry" where
  "spec_batch_entry self resize img =
     (case analyze_single_image self resize img of
        Inr result \<Rightarrow> Analyzed result
      | Inl e \<Rightarrow> ErrorEntry (str_of_error e) False 0.0)"

text \<open>
  The end-to-end example of the specification, over the sample project of 100 hectares: a
  classifier that sees forest with probability 0.85, a legitimacy of 0.9, and a regressor
  without ensemble members that predicts 164.0625 tonnes, for which the feasibility is 0.75.
\<close>

definition example_classifier :: classifier where
  "example_classifier batch = Inr [0, 0, 0, 0.15, 0.85, 0, 0]"

definition example_analyzer :: satellite_analyzer where
  "example_analyzer = \<lparr>model = Some example_classifier, is_model_loaded = True\<rparr>"

definition example_image_result :: classification_result where
  "example_image_result =
     \<lparr>vegetation_detected = True, confidence = 0.85, vegetation_coverage_percent = 100,
      predicted_class = ''forest'',
      class_probabilities = zip vegetation_classes [0, 0, 0, 0.15, 0.85, 0, 0],
      change_detection = detect_changes green_pixel\<rparr>"

definition example_satellite_result :: area_result where
  "example_satellite_result =
     \<lparr>vegetation_detected = True, confidence = 0.85, vegetation_coverage_percent = 100,
      co2_sequestration_potential_tonnes_year = 940, images_analyzed = 1,
      detailed_analysis = [example_image_result]\<rparr>"

definition example_fraud_result :: fraud_result where
  "example_fraud_result = \<lparr>legitimacy_score = 0.9\<rparr>"

definition example_regressor :: regressor where
  "example_regressor =
     \<lparr>predict = (\<lambda>row. 164.0625), estimators = None, feature_importances = None\<rparr>"

definition example_predictor :: carbon_predictor where
  "example_predictor =
     \<lparr>model = Some example_regressor, is_model_loaded = True, scaler = Some identity_scaler\<rparr>"

definition example_carbon_result :: co2_estimate where
  "example_carbon_result =
     \<lparr>annual_co2_tonnes = 164.0625,
      confidence_interval = \<lparr>lower = 131.90625, upper = 196.21875\<rparr>,
      feasibility = 0.75,
      key_factors = [],
      recommendation =
        ''Good project with moderate CO2 capture potential. Recommended for investment with monitoring.''\<rparr>"

text \<open>
  The abscissae of the trend fit, as the specification words them: the days elapsed since
  the first sample. And the sum of the squared residuals of the line \<open>a * x + b\<close>, which a
  least-squares fit makes least.
\<close>

definition spec_elapsed_days :: "temporal_result list \<Rightarrow> real list" where
  "spec_elapsed_days rs = map (\<lambda>r. real_of_int (timedelta_days (date r) (date (hd rs)))) rs"

definition spec_squared_error :: "real list \<Rightarrow> real list \<Rightarrow> real \<Rightarrow> real \<Rightarrow> real" where
  "spec_squared_error xs ys a b =
     sum_list (map (\<lambda>(x, y). (y - (a * x + b))\<^sup>2) (zip xs ys))"

text \<open>
  A dated result with a given coverage, and the time series of the given coverages at a
  fixed spacing in days that starts at the epoch.
\<close>

definition dated_result :: "int \<Rightarrow> real \<Rightarrow> temporal_result" where
  "dated_result day coverage =
     \<lparr>vegetation_detected = True, confidence = 0.9, vegetation_coverage_percent = coverage,
      predicted_class = ''forest'',
      class_probabilities = zip vegetation_classes [0, 0, 0, 0.1, 0.9, 0, 0],
      change_detection = detect_changes green_pixel,
      date = day * 86400000000\<rparr>"

definition equally_spaced :: "int \<Rightarrow> real list \<Rightarrow> temporal_result list" where
  "equally_spaced spacing coverages =
     map (\<lambda>(k, coverage). dated_result (int k * spacing) coverage) (enumerate 0 coverages)"

section \<open>Basic facts\<close>

lemma and_then_Inr [simp]: "and_then (Inr x) f = f x"
  by (simp add: and_then_def)

lemma and_then_Inl [simp]: "and_then (Inl e) f = Inl e"
  by (simp add: and_then_def)

lemma and_then_eq_Inr:
  "and_then m f = Inr y \<longleftrightarrow> (\<exists>x. m = Inr x \<and> f x = Inr y)"
  by (cases m) simp_all

lemma and_then_eq_Inl:
  "and_then m f = Inl e \<longleftrightarrow> m = Inl e \<or> (\<exists>x. m = Inr x \<and> f x = Inl e)"
  by (cases m) simp_all

lemma getitem_Some: "d k = Some v \<Longrightarrow> getitem d k = Inr v"
  by (simp add: getitem_def)

text \<open>The equation of \<open>chunks\<close> calls itself under an \<open>if\<close>; it is unfolded on demand.\<close>

declare chunks.simps [simp del]

section \<open>Feasibility score\<close>

lemma feasibility_factors_Inr:
  assumes "features ''vegetation_coverage'' = Some vc"
    and "features ''soil_quality_index'' = Some sq"
    and "features ''precipitation_mm'' = Some pr"
    and "features ''area_hectares'' = Some ar"
    and "ar \<noteq> 0"
  shows "feasibility_factors features prediction =
           Inr [min (vc / 80) 1, sq, min (pr / 1000) 1, min (ar / 100) 1,
                min (prediction / (ar * 5)) 1]"
  using assms by (simp add: feasibility_factors_def getitem_Some)

lemma np_average_weights:
  "np_average [a, b, c, d, e] feasibility_weights =
     Inr (0.25 * a + 0.20 * b + 0.20 * c + 0.15 * d + 0.20 * e)"
  by (simp add: np_average_def feasibility_weights_def)

lemma calculate_feasibility_eq:
  assumes "features ''vegetation_coverage'' = Some vc"
    and "features ''soil_quality_index'' = Some sq"
    and "features ''precipitation_mm'' = Some pr"
    and "features ''area_hectares'' = Some ar"
    and "ar \<noteq> 0"
  shows "calculate_feasibility features prediction =
           Inr (min (spec_feasibility vc sq pr ar prediction) 1)"
  by (simp add: calculate_feasibility_def feasibility_factors_Inr [OF assms]
      np_average_weights spec_feasibility_def)

lemma spec_feasibility_nonneg:
  assumes "0 \<le> vc" "0 \<le> sq" "0 \<le> pr" "0 < ar" "0 \<le> prediction"
  shows "0 \<le> spec_feasibility vc sq pr ar prediction"
proof -
  have "0 \<le> min (vc / 80) 1" "0 \<le> min (pr / 1000) 1" "0 \<le> min (ar / 100) 1"
    "0 \<le> min (prediction / (ar * 5)) 1"
    using assms by simp_all
  then show ?thesis
    using assms(2) by (simp add: spec_feasibility_def)
qed

lemma weighted_le_1:
  fixes a b c d e :: real
  assumes "a \<le> 1" "b \<le> 1" "c \<le> 1" "d \<le> 1" "e \<le> 1"
  shows "0.25 * a + 0.20 * b + 0.20 * c + 0.15 * d + 0.20 * e \<le> 1"
  using assms by simp

lemma spec_feasibility_le_1:
  assumes "sq \<le> 1"
  shows "spec_feasibility vc sq pr ar prediction \<le> 1"
  unfolding spec_feasibility_def
  by (rule weighted_le_1) (simp_all add: assms)

lemma sample_features_simps:
  "sample_features ''vegetation_coverage'' = Some 75"
  "sample_features ''soil_quality_index'' = Some 0.7"
  "sample_features ''precipitation_mm'' = Some 800"
  "sample_features ''area_hectares'' = Some 100"
  by (simp_all add: sample_features_def extract_project_features_def sample_project_def
      sample_environment_def dict_get_def)

text \<open>
  C2, as the code has it. For every feature mapping that holds the four features the
  score reads, with a non-zero area, and for every point prediction, the feasibility score
  is the weighted average of the five factors (weights 0.25, 0.20, 0.20, 0.15, 0.20)
  clamped above at 1. It never exceeds 1, it is the weighted average itself when the soil
  quality is at most 1, and it is at least 0 when coverage, soil quality, precipitation and
  prediction are not negative and the area is positive. Nothing clamps it below.
\<close>

theorem calculate_feasibility_clamped_above:
  "features ''vegetation_coverage'' = Some vc \<Longrightarrow>
   features ''soil_quality_index'' = Some sq \<Longrightarrow>
   features ''precipitation_mm'' = Some pr \<Longrightarrow>
   features ''area_hectares'' = Some ar \<Longrightarrow>
   ar \<noteq> 0 \<Longrightarrow>
   calculate_feasibility features prediction =
     Inr (min (spec_feasibility vc sq pr ar prediction) 1) \<and>
   min (spec_feasibility vc sq pr ar prediction) 1 \<le> 1 \<and>
   (sq \<le> 1 \<longrightarrow>
      min (spec_feasibility vc sq pr ar prediction) 1 = spec_feasibility vc sq pr ar prediction) \<and>
   (0 \<le> vc \<and> 0 \<le> sq \<and> 0 \<le> pr \<and> 0 < ar \<and> 0 \<le> prediction \<longrightarrow>
      0 \<le> min (spec_feasibility vc sq pr ar prediction) 1)"
  using calculate_feasibility_eq [of features vc sq pr ar prediction]
    spec_feasibility_nonneg [of vc sq pr ar prediction]
    spec_feasibility_le_1 [of sq vc pr ar prediction]
  by simp

text \<open>
  The sample project with a prediction of 250 tonnes: the score is 0.784375, inside [0, 1].
\<close>

theorem calculate_feasibility_clamped_above_witness:
  "calculate_feasibility sample_features 250 = Inr 0.784375 \<and>
   spec_feasibility 75 0.7 800 100 250 = 0.784375 \<and>
   (0.784375 :: real) \<le> 1 \<and> (0 :: real) \<le> 0.784375"
  using calculate_feasibility_clamped_above [of sample_features 75 "0.7" 800 100 250]
  by (simp add: sample_features_simps spec_feasibility_def)

text \<open>
  C2 as stated fails: the score is not always in [0, 1]. Over one hectare a point
  prediction of -1000 tonnes gives the factor -200 for the prediction and the score
  -39.464125; over -1000 hectares a prediction of 50 tonnes gives -0.967625.
\<close>

theorem calculate_feasibility_negative_counterexample:
  "calculate_feasibility small_area_features (- 1000) = Inr (- 39.464125) \<and>
   calculate_feasibility (sample_features(''area_hectares'' \<mapsto> - 1000)) 50 = Inr (- 0.967625) \<and>
   \<not> (0 :: real) \<le> - 39.464125 \<and> \<not> (0 :: real) \<le> - 0.967625"
proof -
  have a: "calculate_feasibility small_area_features (- 1000) =
      Inr (min (spec_feasibility 75 0.7 800 1 (- 1000)) 1)"
    by (rule calculate_feasibility_eq) (simp_all add: small_area_features_def sample_features_simps)
  have b: "calculate_feasibility (sample_features(''area_hectares'' \<mapsto> - 1000)) 50 =
      Inr (min (spec_feasibility 75 0.7 800 (- 1000) 50) 1)"
    by (rule calculate_feasibility_eq) (simp_all add: sample_features_simps)
  show ?thesis
    by (simp add: a b spec_feasibility_def)
qed

section \<open>Monthly decomposition\<close>

lemma co2_spec_month_record:
  "map co2_capture_tonnes (map (spec_month_record a) ks) =
     map (\<lambda>j. a / 12 * seasonal_factors ! (j mod 12)) ks"
  by (simp add: spec_month_record_def)

lemma monthly_loop_invariant:
  "monthly_loop a [i..<i + n] (map (spec_month_record a) [0..<i]) =
     map (spec_month_record a) [0..<i + n]"
proof (induction n arbitrary: i)
  case 0
  then show ?case by simp
next
  case (Suc n)
  have step: "map (spec_month_record a) [0..<i] @
        [\<lparr>month = i + 1,
          co2_capture_tonnes = a / 12 * seasonal_factors ! (i mod 12),
          seasonal_factor = seasonal_factors ! (i mod 12),
          cumulative_co2 =
            sum_list (map co2_capture_tonnes (map (spec_month_record a) [0..<i])) +
            a / 12 * seasonal_factors ! (i mod 12)\<rparr>] =
      map (spec_month_record a) [0..<Suc i]"
    by (simp add: spec_month_record_def comp_def)
  have "[i..<i + Suc n] = i # [Suc i..<Suc i + n]"
    by (simp add: upt_rec)
  then have "monthly_loop a [i..<i + Suc n] (map (spec_month_record a) [0..<i]) =
      monthly_loop a [Suc i..<Suc i + n] (map (spec_month_record a) [0..<Suc i])"
    using step by (simp add: Let_def)
  also have "\<dots> = map (spec_month_record a) [0..<Suc i + n]"
    by (rule Suc.IH)
  finally show ?case by simp
qed

lemma calculate_monthly_breakdown_eq:
  "calculate_monthly_breakdown a td w =
     map (spec_month_record a) [0..<nat (min (td div 30) 12)]"
  using monthly_loop_invariant [of a 0 "nat (min (td div 30) 12)"]
  by (simp add: calculate_monthly_breakdown_def Let_def)

lemma sum_seasonal_factors: "sum_list seasonal_factors = 11.3"
  by (simp add: seasonal_factors_def)

lemma length_seasonal_factors: "length seasonal_factors = 12"
  by (simp add: seasonal_factors_def)

lemma seasonal_cycle:
  "map (\<lambda>j. seasonal_factors ! (j mod 12)) [0..<12] = seasonal_factors"
proof -
  have "map (\<lambda>j. seasonal_factors ! (j mod 12)) [0..<12] = map ((!) seasonal_factors) [0..<12]"
    by (rule map_cong) simp_all
  also have "\<dots> = map ((!) seasonal_factors) [0..<length seasonal_factors]"
    by (simp only: length_seasonal_factors)
  also have "\<dots> = seasonal_factors"
    by (rule map_nth)
  finally show ?thesis .
qed

lemma twelve_month_sum:
  "sum_list (map (\<lambda>j. a / 12 * seasonal_factors ! (j mod 12)) [0..<12]) = a * 11.3 / 12"
proof -
  have "sum_list (map (\<lambda>j. a / 12 * seasonal_factors ! (j mod 12)) [0..<12]) =
        a / 12 * sum_list (map (\<lambda>j. seasonal_factors ! (j mod 12)) [0..<12])"
    by (simp only: sum_list_const_mult)
  also have "\<dots> = a / 12 * 11.3"
    by (simp only: seasonal_cycle sum_seasonal_factors)
  finally show ?thesis by simp
qed

text \<open>
  C3. For every annual estimate and every requested horizon the monthly decomposition has
  \<open>min (timeframe_days div 30) 12\<close> records, none for a horizon under 30 days (the count of
  \<open>range\<close>), so at most 12. Month \<open>k\<close> (from 0) is numbered \<open>k + 1\<close>, uses the seasonal factor
  \<open>table[k mod 12]\<close> and carries \<open>annual / 12\<close> times that factor; its cumulative total is
  the sum of the monthly tonnes up to and including it. For a horizon of 12 months (360
  days or more) the monthly tonnes sum to \<open>annual * 11.3 / 12\<close>, which is not \<open>annual\<close>
  unless the annual estimate is 0.
\<close>

theorem monthly_breakdown_decomposition:
  "length (calculate_monthly_breakdown a td w) = nat (min (td div 30) 12) \<and>
   length (calculate_monthly_breakdown a td w) \<le> 12 \<and>
   (0 \<le> td \<longrightarrow> int (length (calculate_monthly_breakdown a td w)) = min (td div 30) 12) \<and>
   (\<forall>k < length (calculate_monthly_breakdown a td w).
      month (calculate_monthly_breakdown a td w ! k) = k + 1 \<and>
      seasonal_factor (calculate_monthly_breakdown a td w ! k) = seasonal_factors ! (k mod 12) \<and>
      co2_capture_tonnes (calculate_monthly_breakdown a td w ! k) =
        a / 12 * seasonal_factors ! (k mod 12) \<and>
      cumulative_co2 (calculate_monthly_breakdown a td w ! k) =
        sum_list (map co2_capture_tonnes (take (k + 1) (calculate_monthly_breakdown a td w)))) \<and>
   (360 \<le> td \<longrightarrow>
      sum_list (map co2_capture_tonnes (calculate_monthly_breakdown a td w)) = a * 11.3 / 12 \<and>
      (a \<noteq> 0 \<longrightarrow> sum_list (map co2_capture_tonnes (calculate_monthly_breakdown a td w)) \<noteq> a))"
proof -
  let ?n = "nat (min (td div 30) 12)"
  let ?r = "calculate_monthly_breakdown a td w"
  have r: "?r = map (spec_month_record a) [0..<?n]"
    by (rule calculate_monthly_breakdown_eq)
  have len: "length ?r = ?n"
    by (simp add: r)
  have le: "length ?r \<le> 12"
    by (simp add: len)
  have nonneg: "0 \<le> td \<longrightarrow> int (length ?r) = min (td div 30) 12"
    by (simp add: len)
  have each: "\<forall>k < length ?r.
      month (?r ! k) = k + 1 \<and>
      seasonal_factor (?r ! k) = seasonal_factors ! (k mod 12) \<and>
      co2_capture_tonnes (?r ! k) = a / 12 * seasonal_factors ! (k mod 12) \<and>
      cumulative_co2 (?r ! k) = sum_list (map co2_capture_tonnes (take (k + 1) ?r))"
  proof (intro allI impI)
    fix k assume k: "k < length ?r"
    then have kn: "k < ?n" by (simp add: len)
    have nth: "?r ! k = spec_month_record a k"
      using kn by (simp add: r)
    have "take (k + 1) ?r = map (spec_month_record a) [0..<k + 1]"
      using kn by (simp add: r take_map min_def)
    then have "sum_list (map co2_capture_tonnes (take (k + 1) ?r)) =
        sum_list (map (\<lambda>j. a / 12 * seasonal_factors ! (j mod 12)) [0..<k + 1])"
      by (simp only: co2_spec_month_record)
    then show "month (?r ! k) = k + 1 \<and>
      seasonal_factor (?r ! k) = seasonal_factors ! (k mod 12) \<and>
      co2_capture_tonnes (?r ! k) = a / 12 * seasonal_factors ! (k mod 12) \<and>
      cumulative_co2 (?r ! k) = sum_list (map co2_capture_tonnes (take (k + 1) ?r))"
      by (simp add: nth spec_month_record_def)
  qed
  have year: "360 \<le> td \<longrightarrow>
      sum_list (map co2_capture_tonnes ?r) = a * 11.3 / 12 \<and>
      (a \<noteq> 0 \<longrightarrow> sum_list (map co2_capture_tonnes ?r) \<noteq> a)"
  proof
    assume "360 \<le> td"
    then have "?n = 12" by simp
    then have "sum_list (map co2_capture_tonnes ?r) = a * 11.3 / 12"
      by (simp only: r co2_spec_month_record twelve_month_sum)
    then show "sum_list (map co2_capture_tonnes ?r) = a * 11.3 / 12 \<and>
      (a \<noteq> 0 \<longrightarrow> sum_list (map co2_capture_tonnes ?r) \<noteq> a)"
      by simp
  qed
  from len le nonneg each year show ?thesis by blast
qed

text \<open>
  An annual estimate of 1200 tonnes over 365 days: 12 records, the fifth with factor 1.4
  and 140 tonnes, and a total of 1130 tonnes, not 1200.
\<close>

theorem monthly_breakdown_decomposition_witness:
  "length (calculate_monthly_breakdown 1200 365 True) = 12 \<and>
   month (calculate_monthly_breakdown 1200 365 True ! 4) = 5 \<and>
   seasonal_factor (calculate_monthly_breakdown 1200 365 True ! 4) = 1.4 \<and>
   co2_capture_tonnes (calculate_monthly_breakdown 1200 365 True ! 4) = 140 \<and>
   sum_list (map co2_capture_tonnes (calculate_monthly_breakdown 1200 365 True)) = 1130 \<and>
   sum_list (map co2_capture_tonnes (calculate_monthly_breakdown 1200 365 True)) \<noteq> 1200"
  using monthly_breakdown_decomposition [of 1200 365 True]
  by (simp add: seasonal_factors_def)

section \<open>The estimate of the predictor\<close>

lemma np_std_nonneg:
  assumes "np_std xs = Inr s"
  shows "0 \<le> s"
proof -
  let ?m = "sum_list xs / real (length xs)"
  have "0 \<le> sum_list (map (\<lambda>x. (x - ?m)\<^sup>2) xs)"
    by (rule sum_list_nonneg) auto
  then have nonneg: "0 \<le> sum_list (map (\<lambda>x. (x - ?m)\<^sup>2) xs) / real (length xs)"
    by simp
  from assms have "s = sqrt (sum_list (map (\<lambda>x. (x - ?m)\<^sup>2) xs) / real (length xs))"
    by (simp add: np_std_def Let_def split: if_splits)
  then show ?thesis
    using nonneg by simp
qed

lemma estimate_prediction_uncertainty_nonneg:
  "estimate_prediction_uncertainty m row = Inr s \<Longrightarrow> 0 \<le> s"
  by (auto simp: estimate_prediction_uncertainty_def split: option.splits dest: np_std_nonneg)

lemma feature_array_extract:
  "feature_array (extract_project_features p env now) feature_columns =
     Inr [area_hectares p, 75, dict_get env ''temperature'' 20, dict_get env ''precipitation'' 800,
          dict_get env ''soil_quality'' 0.7, dict_get env ''elevation'' 500,
          dict_get env ''slope'' 10, dict_get env ''biodiversity'' 0.6,
          dict_get env ''human_activity'' 0.3,
          real_of_int (timedelta_days now (start_date p)) / 30.44]"
  by (simp add: extract_project_features_def feature_columns_def getitem_def Let_def)

text \<open>What a returned estimate is made of.\<close>

lemma estimate_co2_capture_Inr:
  assumes "estimate_co2_capture self p env now = Inr r"
  shows "\<exists>m row scaled prediction_std feasibility_score.
           is_model_loaded self \<and> model self = Some m \<and>
           feature_array (extract_project_features p env now) feature_columns = Inr row \<and>
           transform (scaler self) row = Inr scaled \<and>
           estimate_prediction_uncertainty m scaled = Inr prediction_std \<and>
           calculate_feasibility (extract_project_features p env now) (predict m scaled) =
             Inr feasibility_score \<and>
           annual_co2_tonnes r = max (predict m scaled) 0 \<and>
           lower (confidence_interval r) = max (predict m scaled - 1.96 * prediction_std) 0 \<and>
           upper (confidence_interval r) = predict m scaled + 1.96 * prediction_std \<and>
           feasibility r = feasibility_score"
  using assms
  by (auto simp: estimate_co2_capture_def Let_def and_then_eq_Inr
      split: if_splits option.splits)

text \<open>
  Of a returned estimate: the lower bound and the point estimate are not negative, the
  lower bound is at most the point estimate, and the upper bound is at least the point
  estimate when that is positive, that is when the raw prediction is.
\<close>

lemma confidence_interval_bounds:
  assumes "estimate_co2_capture self p env now = Inr r"
  shows "0 \<le> lower (confidence_interval r)"
    and "0 \<le> annual_co2_tonnes r"
    and "lower (confidence_interval r) \<le> annual_co2_tonnes r"
    and "0 < annual_co2_tonnes r \<Longrightarrow> annual_co2_tonnes r \<le> upper (confidence_interval r)"
proof -
  obtain m :: regressor and scaled s where s: "estimate_prediction_uncertainty m scaled = Inr s"
    and a: "annual_co2_tonnes r = max (predict m scaled) 0"
    and l: "lower (confidence_interval r) = max (predict m scaled - 1.96 * s) 0"
    and u: "upper (confidence_interval r) = predict m scaled + 1.96 * s"
    using estimate_co2_capture_Inr [OF assms] by blast
  have s0: "0 \<le> s"
    using s by (rule estimate_prediction_uncertainty_nonneg)
  show "0 \<le> lower (confidence_interval r)" by (simp add: l)
  show "0 \<le> annual_co2_tonnes r" by (simp add: a)
  show "lower (confidence_interval r) \<le> annual_co2_tonnes r"
    using s0 by (simp add: a l)
  show "annual_co2_tonnes r \<le> upper (confidence_interval r)" if "0 < annual_co2_tonnes r"
    using s0 that by (simp add: a u max_def split: if_splits)
qed

lemma np_std_negative_trees: "np_std [- 11, - 9] = Inr 1"
  by (simp add: np_std_def Let_def power2_eq_square)

lemma np_std_sample_trees: "np_std [240, 260] = Inr 10"
proof -
  have "sqrt 100 = 10"
    using real_sqrt_abs [of 10] by simp
  then show ?thesis
    by (simp add: np_std_def Let_def power2_eq_square)
qed

lemma transform_identity:
  "transform (Some identity_scaler) [a, b, c, d, e, f, g, h, i, j] =
     Inr [a, b, c, d, e, f, g, h, i, j]"
  by (simp add: transform_def identity_scaler_def numeral_eq_Suc)

lemma estimate_sample:
  "estimate_co2_capture sample_predictor sample_project sample_environment 0 = Inr sample_estimate"
proof -
  have f: "calculate_feasibility (extract_project_features sample_project sample_environment 0) 250 =
      Inr (min (spec_feasibility 75 0.7 800 100 250) 1)"
    by (rule calculate_feasibility_eq)
      (simp_all add: sample_features_simps [unfolded sample_features_def])
  show ?thesis
    by (simp add: estimate_co2_capture_def feature_array_extract transform_identity
      sample_predictor_def sample_forest_def estimate_prediction_uncertainty_def
      np_std_sample_trees f spec_feasibility_def get_feature_importance_def
      generate_recommendation_def sample_estimate_def)
qed

text \<open>
  C4, at the failing input. A forest whose two trees predict -11 and -9 tonnes predicts -10
  with standard deviation 1. The estimate returned for the sample project has the point
  estimate 0 (the prediction floored), the lower bound 0 (floored) and the upper bound
  \<open>-10 + 1.96 = -8.04\<close>, which nothing floors: the upper bound is below the point estimate
  and below the lower bound.
\<close>

theorem estimate_co2_capture_upper_below_estimate:
  "estimate_co2_capture negative_predictor sample_project sample_environment 0 =
     Inr negative_estimate \<and>
   annual_co2_tonnes negative_estimate = 0 \<and>
   lower (confidence_interval negative_estimate) = 0 \<and>
   upper (confidence_interval negative_estimate) = - 8.04 \<and>
   upper (confidence_interval negative_estimate) < annual_co2_tonnes negative_estimate \<and>
   upper (confidence_interval negative_estimate) < lower (confidence_interval negative_estimate)"
proof -
  have f: "calculate_feasibility (extract_project_features sample_project sample_environment 0) (- 10) =
      Inr (min (spec_feasibility 75 0.7 800 100 (- 10)) 1)"
    by (rule calculate_feasibility_eq)
      (simp_all add: sample_features_simps [unfolded sample_features_def])
  have "estimate_co2_capture negative_predictor sample_project sample_environment 0 =
      Inr negative_estimate"
    by (simp add: estimate_co2_capture_def feature_array_extract transform_identity
      negative_predictor_def negative_forest_def estimate_prediction_uncertainty_def
      np_std_negative_trees f spec_feasibility_def get_feature_importance_def
      generate_recommendation_def negative_estimate_def)
  then show ?thesis
    by (simp add: negative_estimate_def)
qed

text \<open>
  C10. For every project descriptor, every environmental lookup and every clock, the
  feature extraction sets the vegetation-coverage feature to 75. So for every estimate that
  \<open>estimate_co2_capture\<close> returns, the first of the five feasibility factors is
  \<open>min (75 / 80) 1 = 0.9375\<close>, and the feasibility of the estimate is the weighted average of
  these factors clamped at 1.
\<close>

theorem vegetation_coverage_feature_constant:
  "extract_project_features p env now ''vegetation_coverage'' = Some 75 \<and>
   (estimate_co2_capture self p env now = Inr r \<longrightarrow>
      (\<exists>prediction factors average.
         feasibility_factors (extract_project_features p env now) prediction = Inr factors \<and>
         factors ! 0 = min (75 / 80) 1 \<and> factors ! 0 = 0.9375 \<and>
         np_average factors feasibility_weights = Inr average \<and>
         feasibility r = min average 1))"
proof (intro conjI impI)
  show v: "extract_project_features p env now ''vegetation_coverage'' = Some 75"
    by (simp add: extract_project_features_def)
  assume e: "estimate_co2_capture self p env now = Inr r"
  obtain m :: regressor and scaled score where
    "calculate_feasibility (extract_project_features p env now) (predict m scaled) = Inr score"
    and "feasibility r = score"
    using estimate_co2_capture_Inr [OF e] by blast
  then have
    c: "calculate_feasibility (extract_project_features p env now) (predict m scaled) =
          Inr (feasibility r)"
    by simp
  then obtain factors average where
    fs: "feasibility_factors (extract_project_features p env now) (predict m scaled) = Inr factors"
    and av: "np_average factors feasibility_weights = Inr average"
    and fe: "feasibility r = min average 1"
    by (auto simp: calculate_feasibility_def and_then_eq_Inr)
  have "factors ! 0 = min (75 / 80) 1"
    using fs v
    by (auto simp: feasibility_factors_def and_then_eq_Inr getitem_def
        split: option.splits if_splits)
  then show "\<exists>prediction factors average.
         feasibility_factors (extract_project_features p env now) prediction = Inr factors \<and>
         factors ! 0 = min (75 / 80) 1 \<and> factors ! 0 = 0.9375 \<and>
         np_average factors feasibility_weights = Inr average \<and>
         feasibility r = min average 1"
    using fs av fe
    by (intro exI [of _ "predict m scaled"] exI [of _ factors] exI [of _ average]) simp
qed

text \<open>
  The sample project with the forest that predicts 250 tonnes: the estimate is returned,
  its first feasibility factor is 0.9375.
\<close>

theorem vegetation_coverage_feature_constant_witness:
  "extract_project_features sample_project sample_environment 0 ''vegetation_coverage'' = Some 75 \<and>
   estimate_co2_capture sample_predictor sample_project sample_environment 0 = Inr sample_estimate \<and>
   (\<exists>prediction factors average.
      feasibility_factors (extract_project_features sample_project sample_environment 0) prediction =
        Inr factors \<and>
      factors ! 0 = 0.9375 \<and>
      np_average factors feasibility_weights = Inr average \<and>
      feasibility sample_estimate = min average 1)"
  using vegetation_coverage_feature_constant
      [of sample_project sample_environment 0 sample_predictor sample_estimate]
    estimate_sample
  by blast

section \<open>Requests to an engine that is not loaded\<close>

text \<open>
  C9. While the flag \<open>is_model_loaded\<close> is false, a request for an estimate raises
  "Carbon predictor model not loaded", and a request for the analysis of an image or of a
  batch raises "CNN model not loaded", whatever model the engine holds and whatever the
  input: nothing is computed and no default is returned. The flag is false in a new engine
  and after a load that failed: the predictor's flag is true after \<open>load_model\<close> exactly when
  the model file was missing (and the fallback trained one) or the model file was read and
  the scaler file was read or missing; the analyzer's flag is false after any exception.
\<close>

theorem model_not_loaded_rejected:
  "(\<not> is_model_loaded self \<longrightarrow>
      estimate_co2_capture self p env now = Inl (ValueError ''Carbon predictor model not loaded'')) \<and>
   (\<not> is_model_loaded analyzer \<longrightarrow>
      analyze_single_image analyzer resize img = Inl (ValueError ''CNN model not loaded'') \<and>
      batch_analyze analyzer resize images = Inl (ValueError ''CNN model not loaded'')) \<and>
   \<not> is_model_loaded new_carbon_predictor \<and>
   \<not> is_model_loaded new_satellite_analyzer \<and>
   (carbon_load_model self model_file scaler_file trained = Inr self' \<longrightarrow>
      is_model_loaded self' =
        (model_file = FileNotFound \<or>
         (\<exists>m. model_file = Found m) \<and>
         (scaler_file = FileNotFound \<or> (\<exists>s. scaler_file = Found s)))) \<and>
   \<not> is_model_loaded (satellite_load_model analyzer (Inl e))"
  by (auto simp: estimate_co2_capture_def analyze_single_image_def batch_analyze_def
      new_carbon_predictor_def new_satellite_analyzer_def carbon_load_model_def
      create_carbon_model_def satellite_load_model_def
      split: loaded.splits sum.splits prod.splits)

text \<open>
  A new predictor whose model file is corrupt stays unloaded and rejects the sample
  project; a new analyzer rejects the green pixel, alone and in a batch.
\<close>

theorem model_not_loaded_rejected_witness:
  "carbon_load_model new_carbon_predictor (Broken (CollaboratorError ''corrupt file''))
     FileNotFound (Inl (CollaboratorError ''no training'')) = Inr new_carbon_predictor \<and>
   \<not> is_model_loaded new_carbon_predictor \<and>
   estimate_co2_capture new_carbon_predictor sample_project sample_environment 0 =
     Inl (ValueError ''Carbon predictor model not loaded'') \<and>
   \<not> is_model_loaded new_satellite_analyzer \<and>
   analyze_single_image new_satellite_analyzer sample_resize green_pixel =
     Inl (ValueError ''CNN model not loaded'') \<and>
   batch_analyze new_satellite_analyzer sample_resize [green_pixel, green_pixel] =
     Inl (ValueError ''CNN model not loaded'')"
  using model_not_loaded_rejected
      [where self = new_carbon_predictor and p = sample_project and env = sample_environment
         and now = 0 and analyzer = new_satellite_analyzer and resize = sample_resize
         and img = green_pixel and images = "[green_pixel, green_pixel]"
         and model_file = "Broken (CollaboratorError ''corrupt file'')"
         and scaler_file = FileNotFound
         and trained = "Inl (CollaboratorError ''no training'')"
         and self' = new_carbon_predictor]
  by (simp add: carbon_load_model_def new_carbon_predictor_def)

section \<open>CO2 sequestration potential\<close>

lemma coverage_green_pixel: "calculate_vegetation_coverage green_pixel = Inr 100"
  by (simp add: calculate_vegetation_coverage_def coverage_body_def green_pixel_def channel_def
      tensor_size_def ndvi_above_def Let_def chunks.simps)

lemma analyze_green_pixel:
  "analyze_single_image sample_analyzer sample_resize green_pixel = Inr forest_result"
  by (simp add: analyze_single_image_def sample_analyzer_def sample_resize_def preprocess_image_def
      forest_classifier_def np_argmax_def vegetation_classes_def coverage_green_pixel
      forest_result_def tensor_size_def)
     (simp add: green_pixel_def)

lemma analyze_empty_image:
  "analyze_single_image sample_analyzer sample_resize empty_image =
     Inl (CollaboratorError ''cv2.error: !ssize.empty()'')"
  by (simp add: analyze_single_image_def sample_analyzer_def sample_resize_def preprocess_image_def
      empty_image_def tensor_size_def)

text \<open>The table of the code is the table of the specification, entry by entry.\<close>

lemma conversion_factors_table: "conversion_factors c = spec_conversion_factor c"
  by (simp add: conversion_factors_def spec_conversion_factor_def)

lemma class_loop_sums:
  "class_loop ps (t, c) =
     (t + sum_list (map (\<lambda>(k, p). case spec_conversion_factor k of Some f \<Rightarrow> f * p | None \<Rightarrow> 0) ps),
      c + sum_list (map (\<lambda>(k, p). case spec_conversion_factor k of Some f \<Rightarrow> p | None \<Rightarrow> 0) ps))"
  by (induction ps arbitrary: t c) (auto simp: conversion_factors_table split: option.splits)

lemma result_loop_sums:
  "result_loop rs (t, c) = (t + spec_weighted_sum rs, c + spec_probability_mass rs)"
proof (induction rs arbitrary: t c)
  case Nil
  then show ?case by (simp add: spec_weighted_sum_def spec_probability_mass_def)
next
  case (Cons r rs)
  then show ?case
    by (simp add: class_loop_sums spec_weighted_sum_def spec_probability_mass_def)
qed

lemma calculate_co2_potential_eq:
  "calculate_co2_potential area cov rs =
     max (area * (if 0 < spec_probability_mass rs
                  then spec_weighted_sum rs / spec_probability_mass rs else 0) * (cov / 100)) 0"
  by (simp add: calculate_co2_potential_def result_loop_sums Let_def)

lemma sums_forest:
  "spec_weighted_sum [forest_result] = 10" "spec_probability_mass [forest_result] = 1"
  by (simp_all add: spec_weighted_sum_def spec_probability_mass_def forest_result_def
      vegetation_classes_def spec_conversion_factor_def)

lemma sums_mixed:
  "spec_weighted_sum [mixed_result] = 2.5" "spec_probability_mass [mixed_result] = 1"
  by (simp_all add: spec_weighted_sum_def spec_probability_mass_def forest_result_def
      mixed_result_def vegetation_classes_def spec_conversion_factor_def)

lemma analyze_project_area_Inr:
  assumes "analyze_project_area self resize images area = Inr r"
  shows "detailed_analysis r \<noteq> [] \<and>
         analyze_all self resize images [] = Inr (detailed_analysis r) \<and>
         confidence r =
           sum_list (map confidence (detailed_analysis r)) / real (length (detailed_analysis r)) \<and>
         vegetation_coverage_percent r =
           sum_list (map vegetation_coverage_percent (detailed_analysis r)) /
           real (length (detailed_analysis r)) \<and>
         vegetation_detected r = (confidence r > 0.8 \<and> vegetation_coverage_percent r > 60) \<and>
         co2_sequestration_potential_tonnes_year r =
           calculate_co2_potential area (vegetation_coverage_percent r) (detailed_analysis r)"
  using assms
  by (auto simp: analyze_project_area_def and_then_eq_Inr np_mean_def split: if_splits)

lemma analyze_sample_area:
  "analyze_project_area sample_analyzer sample_resize [green_pixel] 10 = Inr sample_area_result"
  by (simp add: analyze_project_area_def analyze_green_pixel np_mean_def forest_result_def
      calculate_co2_potential_eq sums_forest [unfolded forest_result_def] sample_area_result_def)

lemma conversion_factors_entries:
  "conversion_factors ''forest'' = Some 10"
  "conversion_factors ''dense_vegetation'' = Some 6"
  "conversion_factors ''moderate_vegetation'' = Some 3"
  "conversion_factors ''sparse_vegetation'' = Some 1"
  "conversion_factors ''no_vegetation'' = Some 0"
  "conversion_factors ''reforestation'' = Some 8"
  "conversion_factors ''deforestation'' = Some (- 5)"
  by (simp_all add: conversion_factors_def)

lemma conversion_factors_dom:
  "dom conversion_factors =
     {''forest'', ''dense_vegetation'', ''moderate_vegetation'', ''sparse_vegetation'',
      ''no_vegetation'', ''reforestation'', ''deforestation''}"
  unfolding conversion_factors_def by (simp add: insert_commute)

text \<open>
  C5. For every area, every coverage percentage and every list of per-image results, the
  CO2 potential is \<open>area * (coverage / 100) * (S / M)\<close> floored at 0, where \<open>S\<close> is the sum over
  the images and classes of the conversion factor times the class probability and \<open>M\<close> the
  accumulated probability (a mass that is not positive gives 0); both sums are taken with
  the table of the specification. The coverage that the area analysis passes is the mean
  coverage of the images. The table of the code holds the seven classes of the
  specification and no other: forest 10, dense vegetation 6, moderate vegetation 3, sparse
  vegetation 1, no vegetation 0, reforestation 8, deforestation -5. The factor of
  deforestation enters \<open>S\<close> before the floor: one image split between forest and
  deforestation has \<open>S = 10 * 0.5 - 5 * 0.5\<close> and yields 25 tonnes over 10 covered hectares.
  One image that is forest with probability 1 yields 100 tonnes there.
\<close>

theorem co2_potential_weighted_factor:
  "calculate_co2_potential area coverage results =
     max (area * (if 0 < spec_probability_mass results
                  then spec_weighted_sum results / spec_probability_mass results else 0) *
          (coverage / 100)) 0 \<and>
   (0 < spec_probability_mass results \<longrightarrow>
      calculate_co2_potential area coverage results =
        max (area * (coverage / 100) *
             (spec_weighted_sum results / spec_probability_mass results)) 0) \<and>
   (analyze_project_area self resize images area = Inr r \<longrightarrow>
      vegetation_coverage_percent r =
        sum_list (map vegetation_coverage_percent (detailed_analysis r)) /
        real (length (detailed_analysis r)) \<and>
      co2_sequestration_potential_tonnes_year r =
        calculate_co2_potential area (vegetation_coverage_percent r) (detailed_analysis r)) \<and>
   conversion_factors ''forest'' = Some 10 \<and>
   conversion_factors ''dense_vegetation'' = Some 6 \<and>
   conversion_factors ''moderate_vegetation'' = Some 3 \<and>
   conversion_factors ''sparse_vegetation'' = Some 1 \<and>
   conversion_factors ''no_vegetation'' = Some 0 \<and>
   conversion_factors ''reforestation'' = Some 8 \<and>
   conversion_factors ''deforestation'' = Some (- 5) \<and>
   dom conversion_factors =
     {''forest'', ''dense_vegetation'', ''moderate_vegetation'', ''sparse_vegetation'',
      ''no_vegetation'', ''reforestation'', ''deforestation''} \<and>
   spec_weighted_sum [mixed_result] = 10 * 0.5 + (- 5) * 0.5 \<and>
   calculate_co2_potential 10 100 [mixed_result] = 25 \<and>
   calculate_co2_potential 10 100 [forest_result] = 100"
proof -
  have "spec_weighted_sum [mixed_result] = 10 * 0.5 + (- 5) * 0.5"
    by (simp add: sums_mixed)
  moreover have "calculate_co2_potential 10 100 [mixed_result] = 25"
    by (simp add: calculate_co2_potential_eq sums_mixed)
  moreover have "calculate_co2_potential 10 100 [forest_result] = 100"
    by (simp add: calculate_co2_potential_eq sums_forest)
  moreover have "0 < spec_probability_mass results \<longrightarrow>
      calculate_co2_potential area coverage results =
        max (area * (coverage / 100) *
             (spec_weighted_sum results / spec_probability_mass results)) 0"
    by (simp add: calculate_co2_potential_eq mult_ac)
  ultimately show ?thesis
    using calculate_co2_potential_eq [of area coverage results]
      analyze_project_area_Inr [of self resize images area r]
      conversion_factors_entries conversion_factors_dom
    by blast
qed

text \<open>
  The area analysis of one green pixel by the forest classifier over 10 hectares: the mass
  is 1, the mean coverage is 100 and the potential is 100 tonnes a year.
\<close>

theorem co2_potential_weighted_factor_witness:
  "spec_probability_mass [forest_result] = 1 \<and>
   spec_weighted_sum [forest_result] = 10 \<and>
   analyze_project_area sample_analyzer sample_resize [green_pixel] 10 = Inr sample_area_result \<and>
   vegetation_coverage_percent sample_area_result = 100 \<and>
   co2_sequestration_potential_tonnes_year sample_area_result =
     calculate_co2_potential 10 100 [forest_result] \<and>
   calculate_co2_potential 10 100 [forest_result] = max (10 * (100 / 100) * (10 / 1)) 0 \<and>
   co2_sequestration_potential_tonnes_year sample_area_result = 100"
  using co2_potential_weighted_factor
      [where area = 10 and coverage = 100 and results = "[forest_result]"
         and self = sample_analyzer and resize = sample_resize and images = "[green_pixel]"
         and r = sample_area_result]
    analyze_sample_area
  by (simp add: sums_forest sample_area_result_def)

section \<open>Vegetation coverage\<close>

lemma channel_three:
  assumes "shape t = [h, w, c]"
  shows "channel t k =
     (if k < c then
        Inr (Tensor [h, w] (concat (map (\<lambda>g. take 1 (drop k g)) (chunks c (elements t)))))
      else Inl (IndexError ''index out of bounds for axis 2''))"
  unfolding channel_def assms by simp

lemma channel_not_NonFinite: "channel t k \<noteq> Inl NonFinite"
  by (simp add: channel_def Let_def split: list.splits)

lemma cvtColor_not_NonFinite: "cvtColor_BGR2RGB t \<noteq> Inl NonFinite"
  by (simp add: cvtColor_BGR2RGB_def split: list.splits)

lemma cvtColor_shape:
  assumes "cvtColor_BGR2RGB t = Inr u"
  shows "\<exists>h w. shape u = [h, w, 3] \<and> 0 < h * w"
  using assms by (auto simp: cvtColor_BGR2RGB_def split: list.splits if_splits)

lemma shape_three:
  assumes "length s = 3" and "s ! 2 = (3::nat)"
  shows "\<exists>h w. s = [h, w, 3]"
proof -
  obtain h w c where "s = [h, w, c]"
    using assms(1) by (auto simp: length_Suc_conv numeral_3_eq_3)
  then show ?thesis using assms(2) by simp
qed

text \<open>The image whose channels are read: the input, or its conversion.\<close>

lemma rgb_image_shape:
  assumes "(if length (shape img) = 3 \<and> shape img ! 2 = 3 then Inr img
            else cvtColor_BGR2RGB img) = Inr rgb"
  shows "\<exists>h w. shape rgb = [h, w, 3] \<and> (tensor_size img \<noteq> 0 \<longrightarrow> 0 < h * w)"
proof (cases "length (shape img) = 3 \<and> shape img ! 2 = 3")
  case True
  then obtain h w where "shape img = [h, w, 3]"
    using shape_three by blast
  moreover have "rgb = img" using assms True by simp
  ultimately show ?thesis by (auto simp: tensor_size_def)
next
  case False
  then have "cvtColor_BGR2RGB img = Inr rgb" using assms by (simp split: if_splits)
  then show ?thesis using cvtColor_shape by blast
qed

lemma coverage_of_rgb:
  assumes "shape rgb = [h, w, 3]"
  shows "and_then (channel rgb 1) (\<lambda>green_channel.
     and_then (channel rgb 0) (\<lambda>red_channel.
       let vegetation_pixels =
             length (filter (\<lambda>(g, r). ndvi_above g r)
                       (zip (elements green_channel) (elements red_channel)));
           total_pixels = tensor_size green_channel
       in if total_pixels = 0 then Inl NonFinite
          else Inr (min ((real vegetation_pixels / real total_pixels) * 100) 100.0))) =
     (if h * w = 0 then Inl NonFinite
      else Inr (min (real (length (filter (\<lambda>(g, r). ndvi_above g r)
                 (zip (concat (map (\<lambda>g. take 1 (drop 1 g)) (chunks 3 (elements rgb))))
                      (concat (map (\<lambda>g. take 1 (drop 0 g)) (chunks 3 (elements rgb))))))) /
                 real (h * w) * 100) 100))"
  by (simp add: channel_three [OF assms] Let_def tensor_size_def)

lemma coverage_body_cases:
  "(\<exists>c. coverage_body img = Inr c \<and> 0 \<le> c \<and> c \<le> 100) \<or>
   (\<exists>e. coverage_body img = Inl e \<and> e \<noteq> NonFinite) \<or>
   coverage_body img = Inl NonFinite \<and> tensor_size img = 0"
proof (cases "if length (shape img) = 3 \<and> shape img ! 2 = 3 then Inr img
              else cvtColor_BGR2RGB img")
  case (Inl e)
  then have "coverage_body img = Inl e"
    by (simp add: coverage_body_def)
  moreover have "e \<noteq> NonFinite"
    using Inl cvtColor_not_NonFinite [of img] by (auto split: if_splits)
  ultimately show ?thesis by blast
next
  case (Inr rgb)
  then obtain h w where s: "shape rgb = [h, w, 3]" and n: "tensor_size img \<noteq> 0 \<longrightarrow> 0 < h * w"
    using rgb_image_shape by blast
  have body: "coverage_body img =
     (if h * w = 0 then Inl NonFinite
      else Inr (min (real (length (filter (\<lambda>(g, r). ndvi_above g r)
                 (zip (concat (map (\<lambda>g. take 1 (drop 1 g)) (chunks 3 (elements rgb))))
                      (concat (map (\<lambda>g. take 1 (drop 0 g)) (chunks 3 (elements rgb))))))) /
                 real (h * w) * 100) 100))"
    unfolding coverage_body_def Inr and_then_Inr by (rule coverage_of_rgb [OF s])
  show ?thesis
  proof (cases "h * w = 0")
    case True
    then show ?thesis using body n by auto
  next
    case False
    then show ?thesis unfolding body by simp
  qed
qed

lemma calculate_vegetation_coverage_cases:
  "(\<exists>c. calculate_vegetation_coverage img = Inr c \<and> 0 \<le> c \<and> c \<le> 100) \<or>
   calculate_vegetation_coverage img = Inl NonFinite \<and> tensor_size img = 0"
  using coverage_body_cases [of img]
  by (auto simp: calculate_vegetation_coverage_def)

lemma analyze_single_image_coverage:
  assumes "analyze_single_image self resize img = Inr r"
  shows "calculate_vegetation_coverage img = Inr (vegetation_coverage_percent r)"
  using assms
  by (auto simp: analyze_single_image_def and_then_eq_Inr Let_def
      split: if_splits option.splits)

text \<open>
  An array of \<open>h\<close> by \<open>w\<close> pixels of three channels: the slices of its green and of its red
  channel, and the count of the pixels over the threshold.
\<close>

lemma chunks_pixels:
  "chunks 3 (concat (map (\<lambda>(red, green, blue). [red, green, blue]) pixels)) =
     map (\<lambda>(red, green, blue). [red, green, blue]) pixels"
proof (induction pixels)
  case Nil
  show ?case by (simp add: chunks.simps)
next
  case (Cons p ps)
  obtain r g b where p: "p = (r, g, b)" by (cases p) auto
  show ?case
    unfolding p by (subst chunks.simps) (simp add: Cons.IH)
qed

lemma green_of_pixels:
  "concat (map (\<lambda>g. take 1 (drop 1 g)) (map (\<lambda>(red, green, blue). [red, green, blue]) pixels)) =
     map (\<lambda>(red, green, blue). green) pixels"
  by (induction pixels) auto

lemma red_of_pixels:
  "concat (map (\<lambda>g. take 1 (drop 0 g)) (map (\<lambda>(red, green, blue). [red, green, blue]) pixels)) =
     map (\<lambda>(red, green, blue). red) pixels"
  by (induction pixels) auto

lemma vegetation_count_pixels:
  "length (filter (\<lambda>(g, r). ndvi_above g r)
     (zip (map (\<lambda>(red, green, blue). green) pixels) (map (\<lambda>(red, green, blue). red) pixels))) =
   length (filter (\<lambda>(red, green, blue). ndvi_above green red) pixels)"
  by (induction pixels) auto

lemma ndvi_above_index:
  assumes "0 \<le> g" "0 \<le> r"
  shows "ndvi_above g r \<longleftrightarrow> spec_vegetation_index g r > 0.2"
proof -
  have "g + r + 1 / 10 ^ 8 > 0" using assms by simp
  then have "g + r + 1 / 10 ^ 8 \<noteq> 0" by simp
  then show ?thesis by (simp add: ndvi_above_def spec_vegetation_index_def Let_def)
qed

lemma spec_coverage_range: "0 \<le> spec_coverage pixels" "spec_coverage pixels \<le> 100"
  by (simp_all add: spec_coverage_def)

lemma coverage_rgb_tensor:
  assumes "length pixels = h * w" and "0 < h * w"
    and "\<forall>(red, green, blue) \<in> set pixels. 0 \<le> red \<and> 0 \<le> green"
  shows "calculate_vegetation_coverage (rgb_tensor h w pixels) = Inr (spec_coverage pixels)"
proof -
  have s: "shape (rgb_tensor h w pixels) = [h, w, 3]"
    by (simp add: rgb_tensor_def)
  have e: "elements (rgb_tensor h w pixels) =
      concat (map (\<lambda>(red, green, blue). [red, green, blue]) pixels)"
    by (simp add: rgb_tensor_def)
  have f: "filter (\<lambda>(red, green, blue). ndvi_above green red) pixels =
      filter (\<lambda>(red, green, blue). spec_vegetation_index green red > 0.2) pixels"
    using assms(3) by (intro filter_cong) (auto simp: ndvi_above_index)
  have c: "(if length (shape (rgb_tensor h w pixels)) = 3 \<and> shape (rgb_tensor h w pixels) ! 2 = 3
            then Inr (rgb_tensor h w pixels) else cvtColor_BGR2RGB (rgb_tensor h w pixels)) =
      Inr (rgb_tensor h w pixels)"
    by (simp add: s)
  have n: "h * w \<noteq> 0" "real (h * w) = real (length pixels)"
    using assms(1,2) by simp_all
  have "coverage_body (rgb_tensor h w pixels) = Inr (spec_coverage pixels)"
    unfolding coverage_body_def c and_then_Inr coverage_of_rgb [OF s] e chunks_pixels
      green_of_pixels red_of_pixels vegetation_count_pixels f spec_coverage_def n(2)
    using n(1) by simp
  then show ?thesis
    by (simp add: calculate_vegetation_coverage_def)
qed

lemma coverage_empty_image: "calculate_vegetation_coverage empty_image = Inl NonFinite"
  by (simp add: calculate_vegetation_coverage_def coverage_body_def empty_image_def channel_def
      tensor_size_def Let_def chunks.simps)

lemma coverage_two_pixels:
  "spec_coverage [(255, 0, 0), (0, 255, 0)] = 50"
  by (simp add: spec_coverage_def spec_vegetation_index_def)

text \<open>
  C6, as the code has it. For every image tensor that has an element the coverage
  computation returns a number in [0, 100]: an exception inside gives 0, and otherwise the
  result is the share of the pixels whose index exceeds 0.2, times 100 and capped at 100.
  Whenever a number is returned it is in [0, 100], and the only other outcome is the nan of
  a tensor without pixels. For an array of \<open>h\<close> by \<open>w\<close> pixels of three channels, with red and
  green values that are not negative, the number is the coverage of the specification:
  100 times the count of the pixels with \<open>(green - red) / (green + red + epsilon) > 0.2\<close>
  over the count of the pixels, capped at 100. The coverage of every result of
  \<open>analyze_single_image\<close> is in [0, 100].
\<close>

theorem vegetation_coverage_in_range:
  "(0 < tensor_size img \<longrightarrow>
      (\<exists>c. calculate_vegetation_coverage img = Inr c \<and> 0 \<le> c \<and> c \<le> 100)) \<and>
   (calculate_vegetation_coverage img = Inr c \<longrightarrow> 0 \<le> c \<and> c \<le> 100) \<and>
   (calculate_vegetation_coverage bare = Inl e \<longrightarrow> e = NonFinite \<and> tensor_size bare = 0) \<and>
   (length pixels = h * w \<and> 0 < h * w \<and>
    (\<forall>(red, green, blue) \<in> set pixels. 0 \<le> red \<and> 0 \<le> green) \<longrightarrow>
      calculate_vegetation_coverage (rgb_tensor h w pixels) = Inr (spec_coverage pixels) \<and>
      0 \<le> spec_coverage pixels \<and> spec_coverage pixels \<le> 100) \<and>
   (analyze_single_image self resize img = Inr r \<longrightarrow>
      0 \<le> vegetation_coverage_percent r \<and> vegetation_coverage_percent r \<le> 100)"
proof (intro conjI impI)
  assume "0 < tensor_size img"
  then show "\<exists>c. calculate_vegetation_coverage img = Inr c \<and> 0 \<le> c \<and> c \<le> 100"
    using calculate_vegetation_coverage_cases [of img] by auto
next
  assume a: "calculate_vegetation_coverage img = Inr c"
  show "0 \<le> c" "c \<le> 100"
    using a calculate_vegetation_coverage_cases [of img] by auto
next
  assume a: "calculate_vegetation_coverage bare = Inl e"
  show "e = NonFinite" "tensor_size bare = 0"
    using a calculate_vegetation_coverage_cases [of bare] by auto
next
  assume a: "length pixels = h * w \<and> 0 < h * w \<and>
    (\<forall>(red, green, blue) \<in> set pixels. 0 \<le> red \<and> 0 \<le> green)"
  show "calculate_vegetation_coverage (rgb_tensor h w pixels) = Inr (spec_coverage pixels)"
    using a by (intro coverage_rgb_tensor) simp_all
  show "0 \<le> spec_coverage pixels" "spec_coverage pixels \<le> 100"
    by (rule spec_coverage_range)+
next
  assume a: "analyze_single_image self resize img = Inr r"
  show "0 \<le> vegetation_coverage_percent r" "vegetation_coverage_percent r \<le> 100"
    using analyze_single_image_coverage [OF a] calculate_vegetation_coverage_cases [of img]
    by auto
qed

text \<open>
  C6 as stated fails on a tensor without pixels: for the array of shape (0, 0, 3) both
  counts are 0, their quotient is a nan, no exception is raised and the nan is returned;
  it is no number of [0, 100].
\<close>

theorem vegetation_coverage_empty_counterexample:
  "tensor_size empty_image = 0 \<and>
   calculate_vegetation_coverage empty_image = Inl NonFinite \<and>
   \<not> (\<exists>c. calculate_vegetation_coverage empty_image = Inr c \<and> 0 \<le> c \<and> c \<le> 100)"
  by (simp add: coverage_empty_image) (simp add: empty_image_def tensor_size_def)

text \<open>
  The image of one green pixel has three elements; its coverage is 100, also in the result
  of the analysis. A row of a red and a green pixel has the coverage 50. The array of shape
  (0, 0, 3) has the nan.
\<close>

theorem vegetation_coverage_in_range_witness:
  "0 < tensor_size green_pixel \<and>
   calculate_vegetation_coverage green_pixel = Inr 100 \<and>
   calculate_vegetation_coverage empty_image = Inl NonFinite \<and>
   tensor_size empty_image = 0 \<and>
   length [(255, 0, 0), (0, 255, 0) :: real \<times> real \<times> real] = 1 * 2 \<and>
   list_all (\<lambda>(red, green, blue). 0 \<le> red \<and> 0 \<le> green)
     [(255, 0, 0), (0, 255, 0) :: real \<times> real \<times> real] \<and>
   calculate_vegetation_coverage (rgb_tensor 1 2 [(255, 0, 0), (0, 255, 0)]) = Inr 50 \<and>
   analyze_single_image sample_analyzer sample_resize green_pixel = Inr forest_result \<and>
   vegetation_coverage_percent forest_result = 100 \<and>
   (0::real) \<le> 100 \<and> (100::real) \<le> 100"
  using vegetation_coverage_in_range [where img = green_pixel and c = 100 and self = sample_analyzer
      and resize = sample_resize and r = forest_result and bare = empty_image and e = NonFinite
      and pixels = "[(255, 0, 0), (0, 255, 0)]" and h = 1 and w = 2]
    coverage_green_pixel analyze_green_pixel coverage_empty_image coverage_two_pixels
  by (simp add: green_pixel_def tensor_size_def forest_result_def)


section \<open>Batch analysis\<close>

lemma batch_loop_eq:
  assumes "\<forall>img \<in> set images. analyze_single_image self resize img \<noteq> Inl NonFinite"
  shows "batch_loop self resize images acc =
           Inr (acc @ map (spec_batch_entry self resize) images)"
  using assms
proof (induction images arbitrary: acc)
  case Nil
  then show ?case by simp
next
  case (Cons img rest)
  then have rest: "\<And>acc. batch_loop self resize rest acc =
      Inr (acc @ map (spec_batch_entry self resize) rest)"
    by simp
  from Cons.prems have ok: "analyze_single_image self resize img \<noteq> Inl NonFinite"
    by simp
  show ?case
  proof (cases "analyze_single_image self resize img")
    case (Inl e)
    then have "e \<noteq> NonFinite" using ok by simp
    then show ?thesis
      using Inl by (simp add: rest spec_batch_entry_def)
  next
    case (Inr r)
    then show ?thesis
      by (simp add: rest spec_batch_entry_def)
  qed
qed

text \<open>
  C8. For every list of N images given to a loaded analyzer in which the classification of
  exactly one image, the one at index \<open>k\<close>, raises an error, batch analysis returns N results
  in the order of the images: the result at \<open>k\<close> is the error entry with the message of the
  error, \<open>vegetation_detected = False\<close> and \<open>confidence = 0.0\<close>, and the result at every other
  index is the classification of that image. The failure does not abort the batch.
\<close>

theorem batch_analyze_isolates_failure:
  assumes "is_model_loaded self"
    and "k < length images"
    and "analyze_single_image self resize (images ! k) = Inl e"
    and "e \<noteq> NonFinite"
    and "\<forall>i < length images. i \<noteq> k \<longrightarrow>
           (\<exists>r. analyze_single_image self resize (images ! i) = Inr r)"
  shows "\<exists>results.
           batch_analyze self resize images = Inr results \<and>
           length results = length images \<and>
           results ! k = ErrorEntry (str_of_error e) False 0 \<and>
           (\<forall>i < length images. i \<noteq> k \<longrightarrow>
              (\<exists>r. analyze_single_image self resize (images ! i) = Inr r \<and>
                   results ! i = Analyzed r))"
proof -
  have "\<forall>img \<in> set images. analyze_single_image self resize img \<noteq> Inl NonFinite"
  proof
    fix img assume "img \<in> set images"
    then obtain i where i: "i < length images" and img: "img = images ! i"
      by (auto simp: in_set_conv_nth)
    show "analyze_single_image self resize img \<noteq> Inl NonFinite"
    proof (cases "i = k")
      case True
      then show ?thesis using assms(3,4) img by simp
    next
      case False
      then show ?thesis using assms(5) i img by auto
    qed
  qed
  then have b: "batch_analyze self resize images =
      Inr (map (spec_batch_entry self resize) images)"
    using assms(1) by (simp add: batch_analyze_def batch_loop_eq)
  have k: "map (spec_batch_entry self resize) images ! k = ErrorEntry (str_of_error e) False 0"
    using assms(2,3) by (simp add: spec_batch_entry_def)
  have others: "\<forall>i < length images. i \<noteq> k \<longrightarrow>
      (\<exists>r. analyze_single_image self resize (images ! i) = Inr r \<and>
           map (spec_batch_entry self resize) images ! i = Analyzed r)"
  proof (intro allI impI)
    fix i assume i: "i < length images" "i \<noteq> k"
    then obtain r where "analyze_single_image self resize (images ! i) = Inr r"
      using assms(5) by blast
    then show "\<exists>r. analyze_single_image self resize (images ! i) = Inr r \<and>
           map (spec_batch_entry self resize) images ! i = Analyzed r"
      using i by (simp add: spec_batch_entry_def)
  qed
  show ?thesis
    using b k others by simp
qed

text \<open>
  Three images of which the second has no pixel and is rejected by the resize: three
  results, the second the error entry, the others the classification.
\<close>

theorem batch_analyze_isolates_failure_witness:
  "\<exists>results.
     batch_analyze sample_analyzer sample_resize [green_pixel, empty_image, green_pixel] =
       Inr results \<and>
     length results = 3 \<and>
     results ! 0 = Analyzed forest_result \<and>
     results ! 1 = ErrorEntry ''cv2.error: !ssize.empty()'' False 0 \<and>
     results ! 2 = Analyzed forest_result"
proof -
  let ?images = "[green_pixel, empty_image, green_pixel]"
  have others: "\<forall>i < length ?images. i \<noteq> 1 \<longrightarrow>
      (\<exists>r. analyze_single_image sample_analyzer sample_resize (?images ! i) = Inr r)"
    by (simp add: nth_Cons' analyze_green_pixel)
  have "\<exists>results.
           batch_analyze sample_analyzer sample_resize ?images = Inr results \<and>
           length results = length ?images \<and>
           results ! 1 =
             ErrorEntry (str_of_error (CollaboratorError ''cv2.error: !ssize.empty()'')) False 0 \<and>
           (\<forall>i < length ?images. i \<noteq> 1 \<longrightarrow>
              (\<exists>r. analyze_single_image sample_analyzer sample_resize (?images ! i) = Inr r \<and>
                   results ! i = Analyzed r))"
    by (rule batch_analyze_isolates_failure [OF _ _ _ _ others])
      (simp_all add: sample_analyzer_def analyze_empty_image [unfolded sample_analyzer_def])
  then obtain results where r: "batch_analyze sample_analyzer sample_resize ?images = Inr results"
    "length results = 3"
    "results ! 1 = ErrorEntry ''cv2.error: !ssize.empty()'' False 0"
    and o: "\<forall>i < length ?images. i \<noteq> 1 \<longrightarrow>
              (\<exists>r. analyze_single_image sample_analyzer sample_resize (?images ! i) = Inr r \<and>
                   results ! i = Analyzed r)"
    by auto
  from o [rule_format, of 0] have "results ! 0 = Analyzed forest_result"
    by (auto simp: analyze_green_pixel)
  moreover from o [rule_format, of 2] have "results ! 2 = Analyzed forest_result"
    by (auto simp: analyze_green_pixel)
  ultimately show ?thesis using r by blast
qed

section \<open>Verification verdict\<close>

lemma analyze_example_image:
  "analyze_single_image example_analyzer sample_resize green_pixel = Inr example_image_result"
  by (simp add: analyze_single_image_def example_analyzer_def sample_resize_def
      preprocess_image_def example_classifier_def np_argmax_def vegetation_classes_def
      coverage_green_pixel example_image_result_def tensor_size_def Let_def)
     (simp add: green_pixel_def)

lemma sums_example:
  "spec_weighted_sum [example_image_result] = 9.4"
  "spec_probability_mass [example_image_result] = 1"
  by (simp_all add: spec_weighted_sum_def spec_probability_mass_def example_image_result_def
      vegetation_classes_def spec_conversion_factor_def)

lemma analyze_example_area:
  "analyze_project_area example_analyzer sample_resize [green_pixel] 100 =
     Inr example_satellite_result"
proof -
  have fields: "confidence example_image_result = 0.85"
    "vegetation_coverage_percent example_image_result = 100"
    by (simp_all add: example_image_result_def)
  show ?thesis
    by (simp add: analyze_project_area_def analyze_example_image np_mean_def fields
        calculate_co2_potential_eq sums_example example_satellite_result_def)
qed

lemma estimate_example:
  "estimate_co2_capture example_predictor sample_project sample_environment 0 =
     Inr example_carbon_result"
proof -
  have f: "calculate_feasibility (extract_project_features sample_project sample_environment 0)
        p =
      Inr (min (spec_feasibility 75 0.7 800 100 p) 1)" for p
    by (rule calculate_feasibility_eq)
      (simp_all add: sample_features_simps [unfolded sample_features_def])
  show ?thesis
    by (simp add: estimate_co2_capture_def feature_array_extract transform_identity
      example_predictor_def example_regressor_def estimate_prediction_uncertainty_def
      f spec_feasibility_def get_feature_importance_def
      generate_recommendation_def example_carbon_result_def Let_def)
qed

text \<open>
  C1. For every verification of a project in which the area analysis, the legitimacy
  scorer and the CO2 estimate all return, the aggregator returns a record whose status is
  \<open>vegetation_detected\<close> and legitimacy above 0.8 and feasibility above 0.7, whose confidence
  is the least of the vegetation confidence, the legitimacy and the feasibility, and whose
  fraud risk is 1 minus the legitimacy. With vegetation detected at confidence 0.85,
  legitimacy 0.9 and feasibility 0.75 the status is true, the confidence 0.75 and the
  fraud risk 0.1. A record is returned only when all three analyses returned.
\<close>

theorem verify_carbon_project_combines:
  "(analyze_project_area analyzer resize images (area_hectares project) = Inr s \<and>
    fraud_task = Inr f \<and>
    estimate_co2_capture predictor project env now = Inr c \<longrightarrow>
      (\<exists>v. verify_carbon_project analyzer resize images fraud_task predictor env now project =
             Inr v \<and>
           verification_status v =
             (vegetation_detected s \<and> legitimacy_score f > 0.8 \<and> feasibility c > 0.7) \<and>
           confidence_score v = Min {confidence s, legitimacy_score f, feasibility c} \<and>
           fraud_risk_score v = 1 - legitimacy_score f \<and>
           co2_capture_estimate v = annual_co2_tonnes c \<and>
           (vegetation_detected s \<and> confidence s = 0.85 \<and> legitimacy_score f = 0.9 \<and>
            feasibility c = 0.75 \<longrightarrow>
              verification_status v \<and> confidence_score v = 0.75 \<and>
              fraud_risk_score v = 0.1))) \<and>
   (verify_carbon_project analyzer resize images fraud_task predictor env now project = Inr v' \<longrightarrow>
      (\<exists>s' f' c'.
         analyze_project_area analyzer resize images (area_hectares project) = Inr s' \<and>
         fraud_task = Inr f' \<and>
         estimate_co2_capture predictor project env now = Inr c'))"
proof (intro conjI impI)
  assume a: "analyze_project_area analyzer resize images (area_hectares project) = Inr s \<and>
    fraud_task = Inr f \<and> estimate_co2_capture predictor project env now = Inr c"
  have m: "min (confidence s) (min (legitimacy_score f) (feasibility c)) =
      Min {confidence s, legitimacy_score f, feasibility c}"
    by simp
  show "\<exists>v. verify_carbon_project analyzer resize images fraud_task predictor env now project =
             Inr v \<and>
           verification_status v =
             (vegetation_detected s \<and> legitimacy_score f > 0.8 \<and> feasibility c > 0.7) \<and>
           confidence_score v = Min {confidence s, legitimacy_score f, feasibility c} \<and>
           fraud_risk_score v = 1 - legitimacy_score f \<and>
           co2_capture_estimate v = annual_co2_tonnes c \<and>
           (vegetation_detected s \<and> confidence s = 0.85 \<and> legitimacy_score f = 0.9 \<and>
            feasibility c = 0.75 \<longrightarrow>
              verification_status v \<and> confidence_score v = 0.75 \<and>
              fraud_risk_score v = 0.1)"
    using m by (simp add: verify_carbon_project_def gather3_def a)
next
  assume "verify_carbon_project analyzer resize images fraud_task predictor env now project = Inr v'"
  then show "\<exists>s' f' c'.
         analyze_project_area analyzer resize images (area_hectares project) = Inr s' \<and>
         fraud_task = Inr f' \<and>
         estimate_co2_capture predictor project env now = Inr c'"
    by (cases "analyze_project_area analyzer resize images (area_hectares project)";
        cases fraud_task; cases "estimate_co2_capture predictor project env now")
      (simp_all add: verify_carbon_project_def gather3_def split: if_splits)
qed

text \<open>
  The end-to-end example of the specification, through both engines: the verdict is true
  with confidence 0.75 and fraud risk 0.1.
\<close>

theorem verify_carbon_project_combines_witness:
  "analyze_project_area example_analyzer sample_resize [green_pixel]
       (area_hectares sample_project) = Inr example_satellite_result \<and>
   estimate_co2_capture example_predictor sample_project sample_environment 0 =
     Inr example_carbon_result \<and>
   vegetation_detected example_satellite_result \<and>
   confidence example_satellite_result = 0.85 \<and>
   legitimacy_score example_fraud_result = 0.9 \<and>
   feasibility example_carbon_result = 0.75 \<and>
   (\<exists>v. verify_carbon_project example_analyzer sample_resize [green_pixel]
           (Inr example_fraud_result) example_predictor sample_environment 0 sample_project =
          Inr v \<and>
        verification_status v \<and> confidence_score v = 0.75 \<and> fraud_risk_score v = 0.1 \<and>
        co2_capture_estimate v = 164.0625)"
proof -
  have area: "analyze_project_area example_analyzer sample_resize [green_pixel]
       (area_hectares sample_project) = Inr example_satellite_result"
    using analyze_example_area by (simp add: sample_project_def)
  have fields: "vegetation_detected example_satellite_result"
    "confidence example_satellite_result = 0.85"
    "legitimacy_score example_fraud_result = 0.9"
    "feasibility example_carbon_result = 0.75"
    "annual_co2_tonnes example_carbon_result = 164.0625"
    by (simp_all add: example_satellite_result_def example_fraud_result_def
        example_carbon_result_def)
  show ?thesis
    using verify_carbon_project_combines
        [where analyzer = example_analyzer and resize = sample_resize
           and images = "[green_pixel]" and project = sample_project
           and s = example_satellite_result and fraud_task = "Inr example_fraud_result"
           and f = example_fraud_result and predictor = example_predictor
           and env = sample_environment and now = 0 and c = example_carbon_result]
      area estimate_example fields
    by auto
qed

section \<open>Temporal trend\<close>

lemma squared_error_shift:
  fixes zs :: "(real \<times> real) list"
  shows "sum_list (map (\<lambda>(x, y). (y - (a * x + b))\<^sup>2) zs) =
     sum_list (map (\<lambda>(x, y). (y - (m * x + c))\<^sup>2) zs) +
     sum_list (map (\<lambda>(x, y). ((a - m) * x + (b - c))\<^sup>2) zs) -
     2 * sum_list (map (\<lambda>(x, y). (y - (m * x + c)) * ((a - m) * x + (b - c))) zs)"
  by (induction zs) (auto simp: power2_eq_square algebra_simps)

lemma residual_moments:
  fixes zs :: "(real \<times> real) list"
  shows "sum_list (map (\<lambda>(x, y). (y - (m * x + c)) * (u * x + v)) zs) =
     u * (sum_list (map (\<lambda>(x, y). x * y) zs) - m * sum_list (map (\<lambda>(x, y). x * x) zs) -
          c * sum_list (map fst zs)) +
     v * (sum_list (map snd zs) - m * sum_list (map fst zs) - c * real (length zs))"
  by (induction zs) (auto simp: algebra_simps)

lemma normal_equations:
  fixes n sx sy sxx sxy :: real
  assumes "n * sxx - sx * sx \<noteq> 0"
  defines "m \<equiv> (n * sxy - sx * sy) / (n * sxx - sx * sx)"
    and "c \<equiv> (sy * sxx - sx * sxy) / (n * sxx - sx * sx)"
  shows "sxy - m * sxx - c * sx = 0" and "sy - m * sx - c * n = 0"
  using assms(1) unfolding m_def c_def by (simp_all add: field_simps)

lemma polyfit1_Inr:
  assumes "polyfit1 (0, 0) xs ys = Inr (m, c)"
  shows "length xs = length ys"
    and "real (length xs) * sum_list (map (\<lambda>x. x * x) xs) - sum_list xs * sum_list xs \<noteq> 0"
    and "m = (real (length xs) * sum_list (map (\<lambda>(x, y). x * y) (zip xs ys)) -
              sum_list xs * sum_list ys) /
             (real (length xs) * sum_list (map (\<lambda>x. x * x) xs) - sum_list xs * sum_list xs)"
    and "c = (sum_list ys * sum_list (map (\<lambda>x. x * x) xs) -
              sum_list xs * sum_list (map (\<lambda>(x, y). x * y) (zip xs ys))) /
             (real (length xs) * sum_list (map (\<lambda>x. x * x) xs) - sum_list xs * sum_list xs)"
  using assms by (simp_all add: polyfit1_def Let_def split: if_splits)

text \<open>The fit with a rounding error is the exact fit plus that error.\<close>

lemma polyfit1_rounding:
  assumes "polyfit1 (0, 0) xs ys = Inr (m, c)"
  shows "polyfit1 rounding xs ys = Inr (m + fst rounding, c + snd rounding)"
  using assms by (auto simp: polyfit1_def Let_def split: if_splits)

lemma zip_moments:
  assumes "length xs = length ys"
  shows "sum_list (map fst (zip xs ys)) = sum_list xs"
    and "sum_list (map snd (zip xs ys)) = sum_list ys"
    and "sum_list (map (\<lambda>(x, y). x * x) (zip xs ys)) = sum_list (map (\<lambda>x. x * x) xs)"
    and "length (zip xs ys) = length xs"
  using assms by (induction xs ys rule: list_induct2) simp_all

lemma polyfit1_least_squares:
  assumes "polyfit1 (0, 0) xs ys = Inr (m, c)"
  shows "spec_squared_error xs ys m c \<le> spec_squared_error xs ys a b"
proof -
  let ?zs = "zip xs ys"
  note p = polyfit1_Inr [OF assms]
  note z = zip_moments [OF p(1)]
  have ne: "sum_list (map (\<lambda>(x, y). x * y) ?zs) - m * sum_list (map (\<lambda>x. x * x) xs) -
          c * sum_list xs = 0"
    "sum_list ys - m * sum_list xs - c * real (length xs) = 0"
    unfolding p(3) p(4) by (rule normal_equations [OF p(2)])+
  have "sum_list (map (\<lambda>(x, y). (y - (m * x + c)) * ((a - m) * x + (b - c))) ?zs) = 0"
    unfolding residual_moments z by (simp add: ne)
  then have "spec_squared_error xs ys a b =
      spec_squared_error xs ys m c +
      sum_list (map (\<lambda>(x, y). ((a - m) * x + (b - c))\<^sup>2) ?zs)"
    unfolding spec_squared_error_def
    using squared_error_shift [of a b ?zs m c] by simp
  moreover have "0 \<le> sum_list (map (\<lambda>(x, y). ((a - m) * x + (b - c))\<^sup>2) ?zs)"
    by (rule sum_list_nonneg) auto
  ultimately show ?thesis by simp
qed

lemma sum_squared_deviation:
  fixes xs :: "real list"
  shows "sum_list (map (\<lambda>x. (x - mu)\<^sup>2) xs) =
     sum_list (map (\<lambda>x. x * x) xs) - 2 * mu * sum_list xs + real (length xs) * mu\<^sup>2"
  by (induction xs) (auto simp: power2_eq_square algebra_simps)

lemma singular_all_equal:
  fixes xs :: "real list"
  assumes "xs \<noteq> []"
    and "real (length xs) * sum_list (map (\<lambda>x. x * x) xs) - sum_list xs * sum_list xs = 0"
  shows "\<forall>x \<in> set xs. x = sum_list xs / real (length xs)"
proof -
  let ?n = "real (length xs)"
  let ?mu = "sum_list xs / ?n"
  have n: "0 < ?n" using assms(1) by simp
  have "?n * sum_list (map (\<lambda>x. (x - ?mu)\<^sup>2) xs) =
      ?n * sum_list (map (\<lambda>x. x * x) xs) - sum_list xs * sum_list xs"
    unfolding sum_squared_deviation using n by (simp add: power2_eq_square field_simps)
  then have "sum_list (map (\<lambda>x. (x - ?mu)\<^sup>2) xs) = 0"
    using assms(2) n by simp
  moreover have "\<And>v. v \<in> set (map (\<lambda>x. (x - ?mu)\<^sup>2) xs) \<Longrightarrow> 0 \<le> v"
    by auto
  ultimately have "\<forall>v \<in> set (map (\<lambda>x. (x - ?mu)\<^sup>2) xs). v = 0"
    using sum_list_nonneg_eq_0_iff [of "map (\<lambda>x. (x - ?mu)\<^sup>2) xs"] by blast
  then show ?thesis by simp
qed

lemma polyfit1_total:
  assumes "length xs = length ys" and "xs \<noteq> []" and "hd xs = 0" and "\<exists>x \<in> set xs. x \<noteq> 0"
  shows "\<exists>m c. polyfit1 (0, 0) xs ys = Inr (m, c)"
proof -
  have "real (length xs) * sum_list (map (\<lambda>x. x * x) xs) - sum_list xs * sum_list xs \<noteq> 0"
  proof
    assume "real (length xs) * sum_list (map (\<lambda>x. x * x) xs) - sum_list xs * sum_list xs = 0"
    then have all: "\<forall>x \<in> set xs. x = sum_list xs / real (length xs)"
      using singular_all_equal [OF assms(2)] by blast
    obtain x where x: "x \<in> set xs" "x \<noteq> 0"
      using assms(4) by blast
    have "hd xs \<in> set xs" using assms(2) by simp
    then have "hd xs = sum_list xs / real (length xs)"
      using all by blast
    moreover have "x = sum_list xs / real (length xs)"
      using all x(1) by blast
    ultimately show False
      using assms(3) x(2) by metis
  qed
  then show ?thesis
    using assms(1) by (simp add: polyfit1_def Let_def)
qed

lemma calculate_vegetation_trend_short:
  assumes "length rs < 2"
  shows "calculate_vegetation_trend rounding rs =
     Inr \<lparr>trend = ''insufficient_data'', change_rate = 0,
          initial_coverage = None, final_coverage = None, total_change = None\<rparr>"
  using assms by (simp add: calculate_vegetation_trend_def)

lemma calculate_vegetation_trend_fit:
  assumes "2 \<le> length rs"
    and "polyfit1 (0, 0) (spec_elapsed_days rs) (map vegetation_coverage_percent rs) =
           Inr (slope, intercept)"
  shows "calculate_vegetation_trend rounding rs =
     Inr \<lparr>trend = (if slope + fst rounding > 1 then ''increasing''
                   else if slope + fst rounding < - 1 then ''decreasing'' else ''stable''),
          change_rate = slope + fst rounding,
          initial_coverage = Some (vegetation_coverage_percent (hd rs)),
          final_coverage = Some (vegetation_coverage_percent (last rs)),
          total_change =
            Some (vegetation_coverage_percent (last rs) - vegetation_coverage_percent (hd rs))\<rparr>"
proof -
  have ne: "rs \<noteq> []" using assms(1) by auto
  then have hd: "hd (map date rs) = date (hd rs)"
    "hd (map vegetation_coverage_percent rs) = vegetation_coverage_percent (hd rs)"
    "last (map vegetation_coverage_percent rs) = vegetation_coverage_percent (last rs)"
    by (simp_all add: hd_map last_map)
  have x: "map (\<lambda>d. real_of_int (timedelta_days d (date (hd rs)))) (map date rs) =
      spec_elapsed_days rs"
    by (simp add: spec_elapsed_days_def comp_def)
  show ?thesis
    using assms(1)
    unfolding calculate_vegetation_trend_def Let_def hd x
      polyfit1_rounding [OF assms(2), of rounding]
    by simp
qed

lemma elapsed_equally_spaced:
  "spec_elapsed_days (equally_spaced d [c0, c1, c2, c3]) =
     [0, real_of_int d, 2 * real_of_int d, 3 * real_of_int d]"
  "spec_elapsed_days (equally_spaced d [c0, c1, c2]) = [0, real_of_int d, 2 * real_of_int d]"
  "map vegetation_coverage_percent (equally_spaced d [c0, c1, c2, c3]) = [c0, c1, c2, c3]"
  "map vegetation_coverage_percent (equally_spaced d [c0, c1, c2]) = [c0, c1, c2]"
  by (simp_all add: spec_elapsed_days_def equally_spaced_def dated_result_def timedelta_days_def)

lemma polyfit1_rising:
  assumes "x \<noteq> 0"
  shows "polyfit1 (0, 0) [0, x, 2 * x, 3 * x] [40, 45, 50, 55] = Inr (5 / x, 40)"
proof -
  have d: "4 * (x * x + 2 * x * (2 * x) + 3 * x * (3 * x)) - (x + 2 * x + 3 * x) * (x + 2 * x + 3 * x) =
      20 * x * x"
    by (simp add: algebra_simps)
  show ?thesis
    using assms by (simp add: polyfit1_def Let_def d field_simps)
qed

lemma polyfit1_flat:
  assumes "x \<noteq> 0"
  shows "polyfit1 (0, 0) [0, x, 2 * x] [50, 50, 50] = Inr (0, 50)"
  using assms by (simp add: polyfit1_def Let_def field_simps)

text \<open>
  The slope \<open>5 / d\<close> is at least 5/4 for a spacing under 5 days and at most 5/6 for a spacing
  over 5 days, so a rounding error under 1/6 does not move it across the threshold.
\<close>

lemma rising_slope_classes:
  fixes d :: int and e :: real
  assumes "0 < d" and "d \<noteq> 5" and "\<bar>e\<bar> < 1 / 6"
  shows "(1 < 5 / real_of_int d + e) = (d < 5)" and "\<not> 5 / real_of_int d + e < - 1"
proof -
  have pos: "0 < 5 / real_of_int d" using assms(1) by simp
  show "\<not> 5 / real_of_int d + e < - 1"
    using pos assms(3) by linarith
  show "(1 < 5 / real_of_int d + e) = (d < 5)"
  proof (cases "d < 5")
    case True
    then have "real_of_int d \<le> 4" by simp
    then have "5 / 4 \<le> 5 / real_of_int d"
      using assms(1) by (simp add: field_simps)
    then show ?thesis using True assms(3) by linarith
  next
    case False
    then have "6 \<le> real_of_int d" using assms(2) by simp
    then have "5 / real_of_int d \<le> 5 / 6"
      using assms(1) by (simp add: field_simps)
    then show ?thesis using False assms(3) by linarith
  qed
qed

lemma trend_rising:
  assumes "0 < d" and "d \<noteq> 5" and "\<bar>fst rounding\<bar> < 1 / 6"
  shows "calculate_vegetation_trend rounding (equally_spaced d [40, 45, 50, 55]) =
     Inr \<lparr>trend = (if d < 5 then ''increasing'' else ''stable''),
          change_rate = 5 / real_of_int d + fst rounding,
          initial_coverage = Some 40, final_coverage = Some 55, total_change = Some 15\<rparr>"
proof -
  have fit: "polyfit1 (0, 0) (spec_elapsed_days (equally_spaced d [40, 45, 50, 55]))
      (map vegetation_coverage_percent (equally_spaced d [40, 45, 50, 55])) =
      Inr (5 / real_of_int d, 40)"
    unfolding elapsed_equally_spaced using assms(1) by (intro polyfit1_rising) simp
  have len: "2 \<le> length (equally_spaced d [40, 45, 50, 55])"
    by (simp add: equally_spaced_def)
  have ends: "vegetation_coverage_percent (hd (equally_spaced d [40, 45, 50, 55])) = 40"
    "vegetation_coverage_percent (last (equally_spaced d [40, 45, 50, 55])) = 55"
    by (simp_all add: equally_spaced_def dated_result_def)
  show ?thesis
    unfolding calculate_vegetation_trend_fit [OF len fit] ends
    by (simp add: rising_slope_classes [OF assms])
qed

lemma trend_flat:
  assumes "0 < d" and "\<bar>fst rounding\<bar> \<le> 1"
  shows "calculate_vegetation_trend rounding (equally_spaced d [50, 50, 50]) =
     Inr \<lparr>trend = ''stable'', change_rate = fst rounding,
          initial_coverage = Some 50, final_coverage = Some 50, total_change = Some 0\<rparr>"
proof -
  have fit: "polyfit1 (0, 0) (spec_elapsed_days (equally_spaced d [50, 50, 50]))
      (map vegetation_coverage_percent (equally_spaced d [50, 50, 50])) = Inr (0, 50)"
    unfolding elapsed_equally_spaced using assms(1) by (intro polyfit1_flat) simp
  have len: "2 \<le> length (equally_spaced d [50, 50, 50])"
    by (simp add: equally_spaced_def)
  have ends: "vegetation_coverage_percent (hd (equally_spaced d [50, 50, 50])) = 50"
    "vegetation_coverage_percent (last (equally_spaced d [50, 50, 50])) = 50"
    by (simp_all add: equally_spaced_def dated_result_def)
  have slope: "\<not> 1 < fst rounding" "\<not> fst rounding < - 1"
    using assms(2) by linarith+
  show ?thesis
    unfolding calculate_vegetation_trend_fit [OF len fit] ends
    by (simp add: slope)
qed

lemma elapsed_days_head:
  assumes "rs \<noteq> []"
  shows "hd (spec_elapsed_days rs) = 0" and "length (spec_elapsed_days rs) = length rs"
  using assms by (simp_all add: spec_elapsed_days_def hd_map timedelta_days_def)

text \<open>
  C7, as the code has it. With fewer than 2 points the trend computation returns
  "insufficient_data" with change rate 0.0 and raises nothing. With 2 points or more, of
  which one is a day or more from the first, it fits the least-squares line of coverage
  against the days elapsed since the first sample: the slope it gets is the slope of that
  line (which makes the squared error least) plus the rounding error of the float
  computation. It returns "increasing" when this slope exceeds 1.0, "decreasing" when it is
  below -1.0 and "stable" otherwise, with the slope, the initial coverage, the final coverage
  and their difference. The slope is per day: for the coverages 40, 45, 50, 55 at a spacing
  of \<open>d\<close> days it is \<open>5 / d\<close>, so with any rounding error under 1/6 the trend is "increasing"
  at a spacing under 5 days and "stable" at a spacing over 5 days (at 5 days the slope is at
  the threshold and the rounding decides); the coverages 50, 50, 50 are "stable" at every
  spacing.
\<close>

theorem vegetation_trend_classification:
  "(length short < 2 \<longrightarrow>
      calculate_vegetation_trend rounding short =
        Inr \<lparr>trend = ''insufficient_data'', change_rate = 0,
             initial_coverage = None, final_coverage = None, total_change = None\<rparr>) \<and>
   (2 \<le> length rs \<and> (\<exists>r \<in> set rs. timedelta_days (date r) (date (hd rs)) \<noteq> 0) \<longrightarrow>
      (\<exists>slope intercept.
         polyfit1 (0, 0) (spec_elapsed_days rs) (map vegetation_coverage_percent rs) =
           Inr (slope, intercept) \<and>
         (\<forall>a b. spec_squared_error (spec_elapsed_days rs) (map vegetation_coverage_percent rs)
                  slope intercept \<le>
                spec_squared_error (spec_elapsed_days rs) (map vegetation_coverage_percent rs)
                  a b) \<and>
         calculate_vegetation_trend rounding rs =
           Inr \<lparr>trend = (if slope + fst rounding > 1 then ''increasing''
                         else if slope + fst rounding < - 1 then ''decreasing''
                         else ''stable''),
                change_rate = slope + fst rounding,
                initial_coverage = Some (vegetation_coverage_percent (hd rs)),
                final_coverage = Some (vegetation_coverage_percent (last rs)),
                total_change =
                  Some (vegetation_coverage_percent (last rs) -
                        vegetation_coverage_percent (hd rs))\<rparr>)) \<and>
   (0 < d \<and> d \<noteq> 5 \<and> \<bar>fst rounding\<bar> < 1 / 6 \<longrightarrow>
      calculate_vegetation_trend rounding (equally_spaced d [40, 45, 50, 55]) =
        Inr \<lparr>trend = (if d < 5 then ''increasing'' else ''stable''),
             change_rate = 5 / real_of_int d + fst rounding,
             initial_coverage = Some 40, final_coverage = Some 55, total_change = Some 15\<rparr>) \<and>
   (0 < d \<and> \<bar>fst rounding\<bar> \<le> 1 \<longrightarrow>
      calculate_vegetation_trend rounding (equally_spaced d [50, 50, 50]) =
        Inr \<lparr>trend = ''stable'', change_rate = fst rounding,
             initial_coverage = Some 50, final_coverage = Some 50, total_change = Some 0\<rparr>)"
proof (intro conjI impI)
  assume "length short < 2"
  then show "calculate_vegetation_trend rounding short =
        Inr \<lparr>trend = ''insufficient_data'', change_rate = 0,
             initial_coverage = None, final_coverage = None, total_change = None\<rparr>"
    by (rule calculate_vegetation_trend_short)
next
  assume a: "2 \<le> length rs \<and> (\<exists>r \<in> set rs. timedelta_days (date r) (date (hd rs)) \<noteq> 0)"
  then have ne: "rs \<noteq> []" by auto
  have "\<exists>x \<in> set (spec_elapsed_days rs). x \<noteq> 0"
    using a by (auto simp: spec_elapsed_days_def)
  then obtain slope intercept where
    fit: "polyfit1 (0, 0) (spec_elapsed_days rs) (map vegetation_coverage_percent rs) =
           Inr (slope, intercept)"
    using polyfit1_total [of "spec_elapsed_days rs" "map vegetation_coverage_percent rs"]
      elapsed_days_head [OF ne] ne
    by (auto simp: spec_elapsed_days_def)
  have "\<forall>a b. spec_squared_error (spec_elapsed_days rs) (map vegetation_coverage_percent rs)
                  slope intercept \<le>
                spec_squared_error (spec_elapsed_days rs) (map vegetation_coverage_percent rs)
                  a b"
    using polyfit1_least_squares [OF fit] by blast
  moreover have "calculate_vegetation_trend rounding rs =
           Inr \<lparr>trend = (if slope + fst rounding > 1 then ''increasing''
                         else if slope + fst rounding < - 1 then ''decreasing''
                         else ''stable''),
                change_rate = slope + fst rounding,
                initial_coverage = Some (vegetation_coverage_percent (hd rs)),
                final_coverage = Some (vegetation_coverage_percent (last rs)),
                total_change =
                  Some (vegetation_coverage_percent (last rs) -
                        vegetation_coverage_percent (hd rs))\<rparr>"
    using a by (intro calculate_vegetation_trend_fit [OF _ fit]) simp
  ultimately show "\<exists>slope intercept.
         polyfit1 (0, 0) (spec_elapsed_days rs) (map vegetation_coverage_percent rs) =
           Inr (slope, intercept) \<and>
         (\<forall>a b. spec_squared_error (spec_elapsed_days rs) (map vegetation_coverage_percent rs)
                  slope intercept \<le>
                spec_squared_error (spec_elapsed_days rs) (map vegetation_coverage_percent rs)
                  a b) \<and>
         calculate_vegetation_trend rounding rs =
           Inr \<lparr>trend = (if slope + fst rounding > 1 then ''increasing''
                         else if slope + fst rounding < - 1 then ''decreasing''
                         else ''stable''),
                change_rate = slope + fst rounding,
                initial_coverage = Some (vegetation_coverage_percent (hd rs)),
                final_coverage = Some (vegetation_coverage_percent (last rs)),
                total_change =
                  Some (vegetation_coverage_percent (last rs) -
                        vegetation_coverage_percent (hd rs))\<rparr>"
    using fit by blast
next
  assume "0 < d \<and> d \<noteq> 5 \<and> \<bar>fst rounding\<bar> < 1 / 6"
  then show "calculate_vegetation_trend rounding (equally_spaced d [40, 45, 50, 55]) =
        Inr \<lparr>trend = (if d < 5 then ''increasing'' else ''stable''),
             change_rate = 5 / real_of_int d + fst rounding,
             initial_coverage = Some 40, final_coverage = Some 55, total_change = Some 15\<rparr>"
    by (intro trend_rising) simp_all
next
  assume "0 < d \<and> \<bar>fst rounding\<bar> \<le> 1"
  then show "calculate_vegetation_trend rounding (equally_spaced d [50, 50, 50]) =
        Inr \<lparr>trend = ''stable'', change_rate = fst rounding,
             initial_coverage = Some 50, final_coverage = Some 50, total_change = Some 0\<rparr>"
    by (intro trend_flat) simp_all
qed

text \<open>
  C7 as stated fails: at the spacing of 30 days, which is the spacing of the engine's own
  time series, the coverages 40, 45, 50, 55 have the slope 1/6 and the trend "stable" (shown
  for the exact fit; by the theorem above it is so for every rounding error under 1/6).
\<close>

theorem vegetation_trend_spacing_counterexample:
  "calculate_vegetation_trend (0, 0) (equally_spaced 30 [40, 45, 50, 55]) =
     Inr \<lparr>trend = ''stable'', change_rate = 1 / 6,
          initial_coverage = Some 40, final_coverage = Some 55, total_change = Some 15\<rparr> \<and>
   ''stable'' \<noteq> ''increasing''"
  using trend_rising [of 30 "(0, 0)"] by simp

text \<open>
  A single point; the coverages 40, 45, 50, 55 a day apart with a rounding error of 1e-15 in
  the slope (slope 5 + 1e-15, "increasing"); the coverages 50, 50, 50 a day apart.
\<close>

theorem vegetation_trend_classification_witness:
  "length [dated_result 0 50] < 2 \<and>
   2 \<le> length (equally_spaced 1 [40, 45, 50, 55]) \<and>
   (\<exists>r \<in> set (equally_spaced 1 [40, 45, 50, 55]).
      timedelta_days (date r) (date (hd (equally_spaced 1 [40, 45, 50, 55]))) \<noteq> 0) \<and>
   \<bar>fst (1 / 10 ^ 15 :: real, 0 :: real)\<bar> < 1 / 6 \<and>
   calculate_vegetation_trend (1 / 10 ^ 15, 0) [dated_result 0 50] =
     Inr \<lparr>trend = ''insufficient_data'', change_rate = 0,
          initial_coverage = None, final_coverage = None, total_change = None\<rparr> \<and>
   polyfit1 (0, 0) (spec_elapsed_days (equally_spaced 1 [40, 45, 50, 55]))
       (map vegetation_coverage_percent (equally_spaced 1 [40, 45, 50, 55])) = Inr (5, 40) \<and>
   calculate_vegetation_trend (1 / 10 ^ 15, 0) (equally_spaced 1 [40, 45, 50, 55]) =
     Inr \<lparr>trend = ''increasing'', change_rate = 5 + 1 / 10 ^ 15,
          initial_coverage = Some 40, final_coverage = Some 55, total_change = Some 15\<rparr> \<and>
   calculate_vegetation_trend (1 / 10 ^ 15, 0) (equally_spaced 1 [50, 50, 50]) =
     Inr \<lparr>trend = ''stable'', change_rate = 1 / 10 ^ 15,
          initial_coverage = Some 50, final_coverage = Some 50, total_change = Some 0\<rparr>"
proof -
  have fit: "polyfit1 (0, 0) (spec_elapsed_days (equally_spaced 1 [40, 45, 50, 55]))
       (map vegetation_coverage_percent (equally_spaced 1 [40, 45, 50, 55])) = Inr (5, 40)"
    unfolding elapsed_equally_spaced using polyfit1_rising [of 1] by simp
  show ?thesis
    using vegetation_trend_classification [where short = "[dated_result 0 50]" and d = 1
        and rs = "equally_spaced 1 [40, 45, 50, 55]" and rounding = "(1 / 10 ^ 15, 0)"] fit
    by (simp add: equally_spaced_def dated_result_def timedelta_days_def)
qed

end
